theory Spec2Isabelle
  imports Complex_Main
begin

section \<open>Errors and configuration\<close>

text \<open>
  The exceptions the Python source can raise, as values.  A function that can raise returns
  \<open>error + 'a\<close>, with \<open>Inl\<close> for the exception.  Tensor entries (32-bit floats in the
  source) are idealised as \<open>real\<close>.
\<close>

datatype error =
    ValueError string
  | TypeError string
  | NotImplementedError string
  | UnboundLocalError string
  | NameError string
  | RuntimeError string
  | IndexError
  | AssertionError
  | ZeroDivisionError
  | AttributeError string
  | BdbQuit

text \<open>The \<open>grad_clip\<close> option: a number, or a Python list of numbers.\<close>

datatype clipval = ClipNum real | ClipList "real list"

text \<open>
  The attributes that \<open>ListSNNMulti.__init__\<close> copies from \<open>model_config\<close> onto the
  instance, together with the kernel attributes that \<open>_init_kernels\<close> sets.  An attribute
  that does not exist until it is assigned is an \<open>option\<close>.
\<close>

record snn_config =
  multi_model :: bool
  num_models :: nat
  target_type :: string
  time_length :: nat
  alpha_exp :: real
  alpha_i :: real
  alpha_v :: real
  beta_auto :: bool
  beta_i :: real
  beta_v :: real
  beta_bias :: real
  network_size :: "string list"
  normal_weight_init :: "bool option"
  weight_init_std :: real
  weight_bias :: "real option"
  grad_clip :: clipval
  alpha_extend :: "nat option"
  alpha_kernel :: "real list option"
  alpha_kernel_prime :: "real list option"
  epsilon :: "real list option"
  epsilon_prime :: "real list option"

definition VALID_TARGETS :: "string list" where
  "VALID_TARGETS = [''count'', ''train'', ''latency'']"

section \<open>Kernel initializer (\<open>_init_kernels\<close>)\<close>

text \<open>\<open>torch.pow(a, torch.arange(n).float())\<close>: the powers \<open>a^0, ..., a^(n-1)\<close>.\<close>

definition pow_arange :: "real \<Rightarrow> nat \<Rightarrow> real list" where
  "pow_arange a n = map (\<lambda>k. a ^ k) [0..<n]"

text \<open>\<open>torch.pow(a, torch.arange(t, -1, -1).float())\<close>: the powers \<open>a^t, ..., a^0\<close>.\<close>

definition pow_arange_down :: "real \<Rightarrow> nat \<Rightarrow> real list" where
  "pow_arange_down a t = map (\<lambda>k. a ^ k) (rev [0..<t + 1])"

text \<open>
  The kernel and its centred finite difference:
  \<open>(cat(kernel, zeros(2)) - cat(zeros(2), kernel)) / 2\<close>.
\<close>

definition kernel_prime_of :: "real list \<Rightarrow> real list" where
  "kernel_prime_of kern =
     map2 (\<lambda>f b. (f - b) / 2) (kern @ [0, 0]) ([0, 0] @ kern)"

text \<open>
  The loop that fills \<open>epsilon\<close>: entry \<open>t\<close> is the sum of the elementwise product of
  \<open>current_trace = alpha_i ^ [0..t]\<close> and \<open>trace_weight = alpha_v ^ [t..0]\<close>.
\<close>

definition epsilon_entry :: "real \<Rightarrow> real \<Rightarrow> nat \<Rightarrow> real" where
  "epsilon_entry ai av t =
     sum_list (map2 (*) (pow_arange ai (t + 1)) (pow_arange_down av t))"

definition epsilon_loop :: "real \<Rightarrow> real \<Rightarrow> nat \<Rightarrow> real list" where
  "epsilon_loop ai av T = map (epsilon_entry ai av) [0..<T]"

text \<open>\<open>tensor.max()\<close> raises on an empty tensor.\<close>

definition tensor_max :: "real list \<Rightarrow> error + real" where
  "tensor_max xs =
     (case xs of [] \<Rightarrow> Inl (RuntimeError ''max(): empty tensor'')
      | y # ys \<Rightarrow> Inr (fold max ys y))"

text \<open>The first block of \<open>_init_kernels\<close>: the alpha kernel for train and count targets.\<close>

definition init_alpha_kernel :: "snn_config \<Rightarrow> snn_config" where
  "init_alpha_kernel s =
     (if target_type s \<in> set [''train'', ''count''] then
        (let s1 = (if target_type s = ''train'' then s\<lparr>alpha_extend := Some 200\<rparr>
                   else if target_type s = ''count''
                        then s\<lparr>alpha_exp := 1, alpha_extend := Some 0\<rparr>
                   else s);
             kern = filter (\<lambda>x. x > 1 / 1000000)
                        (pow_arange (alpha_exp s1) (min (time_length s1) 1000))
         in s1\<lparr>alpha_kernel := Some kern,
                alpha_kernel_prime := Some (kernel_prime_of kern)\<rparr>)
      else s)"

definition init_kernels :: "snn_config \<Rightarrow> error + snn_config" where
  "init_kernels s =
     (if target_type s \<notin> set VALID_TARGETS then Inl (ValueError ''invalid target type'')
      else
        (let s1 = init_alpha_kernel s;
             eps = epsilon_loop (alpha_i s1) (alpha_v s1) (time_length s1)
         in case (if beta_auto s1
                  then (case tensor_max eps of
                          Inl e \<Rightarrow> Inl e
                        | Inr m \<Rightarrow> Inr (s1\<lparr>beta_i := 1, beta_v := 1 / m, beta_bias := 1 / m\<rparr>))
                  else Inr s1) of
              Inl e \<Rightarrow> Inl e
            | Inr s2 \<Rightarrow>
                (let eps2 = map (\<lambda>x. x * (beta_i s2 * beta_v s2)) eps
                 in Inr (s2\<lparr>epsilon := Some eps2,
                            epsilon_prime := Some (kernel_prime_of eps2)\<rparr>))))"

text \<open>A small latency-mode configuration with no layers, used to run the definitions.\<close>

definition cfg_demo :: snn_config where
  "cfg_demo = \<lparr>multi_model = False, num_models = 1, target_type = ''latency'',
     time_length = 3, alpha_exp = 9 / 10, alpha_i = 1 / 2, alpha_v = 1 / 4,
     beta_auto = True, beta_i = 1, beta_v = 1, beta_bias = 1, network_size = [''4''],
     normal_weight_init = None, weight_init_std = 1, weight_bias = None,
     grad_clip = ClipNum 1, alpha_extend = None, alpha_kernel = None, alpha_kernel_prime = None,
     epsilon = None, epsilon_prime = None\<rparr>"

section \<open>Tensors, parameters and modules\<close>

text \<open>
  A tensor is its shape and its entries in row-major order.  A \<open>Parameter\<close> is a tensor
  with an optional gradient.  The modules are the five layer kinds the builder creates;
  \<open>Conv2d\<close> keeps its padding, the pools their kernel size, and \<open>MaxPool2d\<close> the
  \<open>max_index_list\<close> attribute the builder attaches to it.
\<close>

record tensor =
  shape :: "nat list"
  vals :: "real list"

record parameter =
  data :: tensor
  grad :: "tensor option"

datatype nn_module =
    Conv2d parameter nat
  | Linear parameter
  | AvgPool2d nat
  | MaxPool2d nat "tensor list"
  | Flatten

text \<open>
  An entry of \<open>self.layers\<close> or \<open>self.state_v_bs\<close> is one object in a single model and
  a Python list of objects, one per replica, in a multi-model.
\<close>

datatype 'a slot = Single 'a | Multi "'a list"

text \<open>The Python objects that reach \<open>is_conv2d_or_linear\<close>.\<close>

datatype pyobj = ObjModule nn_module | ObjList "nn_module list" | ObjParam "parameter option"

text \<open>
  What the numeric library does and this repository does not define: the values of freshly
  created weights, the random normal initialisation, and the convolution and pooling
  kernels.  They are parameters of the model.
\<close>

record torch_env =
  init_weight :: "nat list \<Rightarrow> tensor"
  normal_init :: "real \<Rightarrow> tensor \<Rightarrow> tensor"
  conv2d :: "tensor \<Rightarrow> nat \<Rightarrow> tensor \<Rightarrow> error + tensor"
  avg_pool2d :: "nat \<Rightarrow> tensor \<Rightarrow> error + tensor"
  max_pool2d :: "nat \<Rightarrow> tensor \<Rightarrow> error + tensor \<times> tensor"

text \<open>
  An entry of \<open>self.state_v[l]\<close>.  In a multi-model it is a tensor of its own.  In a
  single model the source binds \<open>state_v\<close> to the layer's bias parameter itself (or, for a
  rank-4 current, to a view of it with another shape) and appends that object: the entry
  shares its storage with \<open>self.state_v_bs[l]\<close>.  \<open>BiasView sh\<close> is that shared storage
  seen with shape \<open>sh\<close>.
\<close>

datatype vref = Own tensor | BiasView "nat list"

text \<open>
  The network object: the configuration, the attributes \<open>_init_layers\<close> sets, and the
  attributes that the forward pass and the loss assign.  An attribute that does not exist
  before its first assignment is \<open>None\<close> or an empty list until then.  The attribute
  \<open>output\<close> is called \<open>output_tensor\<close> here, and \<open>L\<close> is called \<open>loss_L\<close>.
\<close>

record snn = snn_config +
  num_layer :: int
  layers :: "nn_module slot list"
  state_v_bs :: "parameter option slot list"
  fmap_shape_list :: "int list list"
  fmap_type_list :: "string list"
  input :: "tensor option"
  output_s_cum :: "tensor option"
  state_i :: "tensor list list"
  state_v :: "vref list list"
  state_v_prime :: "tensor list list"
  state_s :: "tensor list list"
  weight_list :: "tensor option list"
  bias_list :: "tensor option list"
  term_length :: "nat option"
  output_tensor :: "tensor option"
  output_each_model :: "tensor option"
  num_spike_total :: "int list slot"
  num_spike_nec :: "int list slot"
  first_stime_min :: "real slot option"
  first_stime_mean :: "real slot option"
  batch_size :: "nat option"
  diff :: "tensor option"
  loss_L :: "tensor option"
  loss :: "tensor option"
  warnings :: "string list"

section \<open>Sequencing of computations that can raise\<close>

definition ebind :: "'e + 'a \<Rightarrow> ('a \<Rightarrow> 'e + 'b) \<Rightarrow> 'e + 'b" where
  "ebind m f = (case m of Inl e \<Rightarrow> Inl e | Inr x \<Rightarrow> f x)"

text \<open>A comprehension or loop whose body can raise: left to right, stopping at the first error.\<close>

fun emap :: "('a \<Rightarrow> 'e + 'b) \<Rightarrow> 'a list \<Rightarrow> 'e + 'b list" where
  "emap f [] = Inr []"
| "emap f (x # xs) = ebind (f x) (\<lambda>y. ebind (emap f xs) (\<lambda>ys. Inr (y # ys)))"

section \<open>Python strings\<close>

text \<open>\<open>sub in s\<close>.\<close>

fun py_in_str :: "string \<Rightarrow> string \<Rightarrow> bool" where
  "py_in_str sub [] = (sub = [])"
| "py_in_str sub (c # cs) = (take (length sub) (c # cs) = sub \<or> py_in_str sub cs)"

text \<open>\<open>s.strip(chars)\<close>: drops leading and trailing characters that occur in \<open>chars\<close>.\<close>

definition py_strip :: "string \<Rightarrow> string \<Rightarrow> string" where
  "py_strip chars s =
     rev (dropWhile (\<lambda>c. c \<in> set chars) (rev (dropWhile (\<lambda>c. c \<in> set chars) s)))"

text \<open>\<open>s.split(sep)\<close> for a separator of one character.\<close>

fun py_split :: "char \<Rightarrow> string \<Rightarrow> string list" where
  "py_split sep [] = [[]]"
| "py_split sep (c # cs) =
     (if c = sep then [] # py_split sep cs
      else (case py_split sep cs of
              [] \<Rightarrow> [[c]]
            | w # ws \<Rightarrow> (c # w) # ws))"

text \<open>
  \<open>int(s)\<close> on an ASCII string: optional surrounding whitespace, an optional sign, then
  decimal digits, where single underscores may stand between digits.
\<close>

definition is_space :: "char \<Rightarrow> bool" where
  "is_space c = (c \<in> set [CHR '' '', CHR 0x09, CHR 0x0A, CHR 0x0B, CHR 0x0C, CHR 0x0D,
                            CHR 0x1C, CHR 0x1D, CHR 0x1E, CHR 0x1F])"

definition is_digit :: "char \<Rightarrow> bool" where
  "is_digit c = (48 \<le> (of_char c :: nat) \<and> (of_char c :: nat) \<le> 57)"

definition digits_value :: "string \<Rightarrow> int" where
  "digits_value ds = foldl (\<lambda>n c. 10 * n + (int (of_char c) - 48)) 0 ds"

definition valid_digits :: "string \<Rightarrow> bool" where
  "valid_digits ds =
     (ds \<noteq> [] \<and> is_digit (hd ds) \<and> is_digit (last ds) \<and>
      list_all (\<lambda>c. is_digit c \<or> c = CHR ''_'') ds \<and> \<not> py_in_str ''__'' ds)"

definition py_int :: "string \<Rightarrow> error + int" where
  "py_int s =
     (let t = rev (dropWhile is_space (rev (dropWhile is_space s)));
          neg = (t \<noteq> [] \<and> hd t = CHR ''-'');
          body = (if t \<noteq> [] \<and> (hd t = CHR ''-'' \<or> hd t = CHR ''+'') then tl t else t)
      in if valid_digits body
         then Inr ((if neg then - 1 else 1) * digits_value (filter (\<lambda>c. c \<noteq> CHR ''_'') body))
         else Inl (ValueError ''invalid literal for int() with base 10''))"


section \<open>Network builder (\<open>_init_layers\<close>)\<close>

text \<open>\<open>no_mm_support\<close>: raises when the network is a multi-model.\<close>

definition no_mm_support :: "bool \<Rightarrow> string \<Rightarrow> error + unit" where
  "no_mm_support mm layer_type =
     (if mm then Inl (NotImplementedError layer_type) else Inr ())"

text \<open>
  Reading a local variable.  Python decides at compile time which names are local to a
  function: every name the body assigns, unless declared \<open>nonlocal\<close> or \<open>global\<close>.
  Reading such a name before the function has assigned it raises \<open>UnboundLocalError\<close>.
\<close>

definition load_local :: "string \<Rightarrow> 'a option \<Rightarrow> error + 'a" where
  "load_local name v = (case v of None \<Rightarrow> Inl (UnboundLocalError name) | Some x \<Rightarrow> Inr x)"

text \<open>Unpacking a list into two or three names.\<close>

definition unpack2 :: "'a list \<Rightarrow> error + 'a \<times> 'a" where
  "unpack2 xs = (case xs of [a, b] \<Rightarrow> Inr (a, b) | _ \<Rightarrow> Inl (ValueError ''unpack''))"

definition unpack3 :: "'a list \<Rightarrow> error + 'a \<times> 'a \<times> 'a" where
  "unpack3 xs = (case xs of [a, b, c] \<Rightarrow> Inr (a, b, c) | _ \<Rightarrow> Inl (ValueError ''unpack''))"

text \<open>\<open>math.floor(a / b)\<close> on integers: true division, then floor.\<close>

definition floor_div :: "int \<Rightarrow> int \<Rightarrow> error + int" where
  "floor_div a b = (if b = 0 then Inl ZeroDivisionError else Inr \<lfloor>real_of_int a / real_of_int b\<rfloor>)"

text \<open>\<open>Parameter(torch.Tensor(n))\<close> and the weights of new modules: values from the library.\<close>

definition new_parameter :: "torch_env \<Rightarrow> int list \<Rightarrow> parameter" where
  "new_parameter env sh = \<lparr>data = init_weight env (map nat sh), grad = None\<rparr>"

text \<open>
  The nested function \<open>_init_single_layer(layer_spec)\<close>.  Its body assigns
  \<open>in_channels\<close>, \<open>height\<close>, \<open>width\<close> and \<open>out_channels\<close> and declares none of them
  \<open>nonlocal\<close>, so all four are its own local variables, unbound on entry; the variables of
  the same names in \<open>_init_layers\<close> are not visible in it.  The model keeps each local as
  an \<open>option\<close> and reads it with \<open>load_local\<close> where the source reads it.
\<close>

definition init_single_layer ::
  "torch_env \<Rightarrow> bool \<Rightarrow> string \<Rightarrow> error + nn_module \<times> parameter option \<times> int list \<times> string"
where
  "init_single_layer env mm layer_spec =
     (let in_channels = (None :: int option); height = (None :: int option);
          width = (None :: int option); out_channels = (None :: int option)
      in
      if py_in_str ''conv'' layer_spec then
        ebind (no_mm_support mm ''conv'') (\<lambda>_.
        ebind (emap py_int (py_split CHR ''c'' (py_strip ''conv'' layer_spec))) (\<lambda>items.
        ebind (unpack2 items) (\<lambda>(out_channels, kernel_size).
        let padding = \<lfloor>real_of_int kernel_size / 2\<rfloor> in
        ebind (load_local ''in_channels'' in_channels) (\<lambda>ic.
        let layer = Conv2d (new_parameter env [out_channels, ic, kernel_size, kernel_size])
                      (nat padding);
            bias = new_parameter env [out_channels];
            in_channels = out_channels
        in
        ebind (load_local ''height'' height) (\<lambda>h.
        ebind (load_local ''width'' width) (\<lambda>w.
        Inr (layer, Some bias, [in_channels, h, w], ''conv'')))))))
      else if py_in_str ''fc'' layer_spec then
        ebind (py_int (py_strip ''fc'' layer_spec)) (\<lambda>out_channels.
        ebind (load_local ''in_channels'' in_channels) (\<lambda>ic.
        let layer = Linear (new_parameter env [out_channels, ic]);
            bias = new_parameter env [out_channels];
            in_channels = out_channels
        in Inr (layer, Some bias, [in_channels], ''fc'')))
      else if py_in_str ''apool'' layer_spec then
        ebind (no_mm_support mm ''apool'') (\<lambda>_.
        ebind (py_int (py_strip ''apool'' layer_spec)) (\<lambda>pool_size.
        let layer = AvgPool2d (nat pool_size) in
        ebind (load_local ''height'' height) (\<lambda>h0.
        ebind (floor_div h0 pool_size) (\<lambda>height.
        ebind (load_local ''width'' width) (\<lambda>w0.
        ebind (floor_div w0 pool_size) (\<lambda>width.
        ebind (load_local ''out_channels'' out_channels) (\<lambda>in_channels.
        Inr (layer, None, [in_channels, height, width], ''apool''))))))))
      else if py_in_str ''mpool'' layer_spec then
        ebind (no_mm_support mm ''mpool'') (\<lambda>_.
        ebind (py_int (py_strip ''mpool'' layer_spec)) (\<lambda>pool_size.
        let layer = MaxPool2d (nat pool_size) [] in
        ebind (load_local ''height'' height) (\<lambda>h0.
        ebind (floor_div h0 pool_size) (\<lambda>height.
        ebind (load_local ''width'' width) (\<lambda>w0.
        ebind (floor_div w0 pool_size) (\<lambda>width.
        ebind (load_local ''out_channels'' out_channels) (\<lambda>in_channels.
        Inr (layer, None, [in_channels, height, width], ''mpool''))))))))
      else if py_in_str ''flatten'' layer_spec then
        (let layer = Flatten in
        ebind (load_local ''in_channels'' in_channels) (\<lambda>ic.
        ebind (load_local ''height'' height) (\<lambda>h.
        ebind (load_local ''width'' width) (\<lambda>w.
        let in_channels = ic * h * w in
        Inr (layer, None, [in_channels], ''flatten'')))))
      else Inl (ValueError ''invalid layer type in the following specification''))"

text \<open>
  The first entry of \<open>network_size\<close>: \<open>CxHxW\<close> or a channel count.  These values are the
  locals of \<open>_init_layers\<close>; only the errors of parsing them are observable.
\<close>

definition parse_input_shape :: "string list \<Rightarrow> error + int \<times> int option \<times> int option" where
  "parse_input_shape ns =
     (case ns of
        [] \<Rightarrow> Inl IndexError
      | s0 # _ \<Rightarrow>
          if py_in_str ''x'' s0 then
            ebind (emap py_int (py_split CHR ''x'' s0)) (\<lambda>items.
            ebind (unpack3 items) (\<lambda>(c, h, w). Inr (c, Some h, Some w)))
          else ebind (py_int s0) (\<lambda>c. Inr (c, None, None)))"

text \<open>
  A call of \<open>is_conv2d_or_linear\<close>, which takes one parameter, with the given positional
  arguments.
\<close>

definition is_conv2d_or_linear :: "pyobj \<Rightarrow> bool" where
  "is_conv2d_or_linear obj =
     (case obj of
        ObjModule (Conv2d _ _) \<Rightarrow> True
      | ObjModule (Linear _) \<Rightarrow> True
      | _ \<Rightarrow> False)"

definition call_is_conv2d_or_linear :: "pyobj list \<Rightarrow> error + bool" where
  "call_is_conv2d_or_linear args =
     (case args of
        [layer] \<Rightarrow> Inr (is_conv2d_or_linear layer)
      | _ \<Rightarrow> Inl (TypeError ''is_conv2d_or_linear() takes 1 positional argument''))"

text \<open>\<open>layer.weight = f(layer.weight)\<close> on a module that has a weight.\<close>

definition map_weight :: "(tensor \<Rightarrow> tensor) \<Rightarrow> nn_module \<Rightarrow> nn_module" where
  "map_weight f m =
     (case m of
        Conv2d w p \<Rightarrow> Conv2d (w\<lparr>data := f (data w)\<rparr>) p
      | Linear w \<Rightarrow> Linear (w\<lparr>data := f (data w)\<rparr>)
      | _ \<Rightarrow> m)"

text \<open>
  \<open>reset_parameters_single_layer(layer, state_v_bs)\<close>: the guard calls
  \<open>is_conv2d_or_linear(layer, state_v_bs)\<close> with two arguments; then the bias is set to
  zero, the weight is re-initialised when \<open>normal_weight_init\<close> is set and true, and
  \<open>weight_bias\<close> is added when that attribute exists.
\<close>

definition reset_parameters_single_layer ::
  "torch_env \<Rightarrow> snn_config \<Rightarrow> nn_module \<Rightarrow> parameter option
     \<Rightarrow> error + nn_module \<times> parameter option"
where
  "reset_parameters_single_layer env cfg layer b =
     ebind (call_is_conv2d_or_linear [ObjModule layer, ObjParam b]) (\<lambda>is_cl.
       if \<not> is_cl then Inr (layer, b)
       else
         (let b1 = map_option (\<lambda>p. p\<lparr>data := (data p)\<lparr>vals := map (\<lambda>_. 0) (vals (data p))\<rparr>\<rparr>) b;
              l1 = (if normal_weight_init cfg = Some True
                    then map_weight (normal_init env (weight_init_std cfg)) layer else layer);
              l2 = (case weight_bias cfg of
                      None \<Rightarrow> l1
                    | Some wb \<Rightarrow> map_weight (\<lambda>w. w\<lparr>vals := map (\<lambda>x. x + wb) (vals w)\<rparr>) l1)
          in Inr (l2, b1)))"

definition reset_slot ::
  "torch_env \<Rightarrow> snn_config \<Rightarrow> nn_module slot \<times> parameter option slot
     \<Rightarrow> error + nn_module slot \<times> parameter option slot"
where
  "reset_slot env cfg lb =
     (case lb of
        (Single layer, Single b) \<Rightarrow>
          ebind (reset_parameters_single_layer env cfg layer b) (\<lambda>(l', b').
          Inr (Single l', Single b'))
      | (Multi ls, Multi bs) \<Rightarrow>
          ebind (emap (\<lambda>m. if m < length ls \<and> m < length bs
                           then reset_parameters_single_layer env cfg (ls ! m) (bs ! m)
                           else Inl IndexError)
                   [0..<num_models cfg]) (\<lambda>rs.
          Inr (Multi (map fst rs), Multi (map snd rs)))
      | _ \<Rightarrow> Inl (TypeError ''layer and bias entries differ in kind''))"

definition reset_parameters :: "torch_env \<Rightarrow> snn \<Rightarrow> error + snn" where
  "reset_parameters env s =
     ebind (emap (reset_slot env (snn_config.truncate s)) (zip (layers s) (state_v_bs s))) (\<lambda>rs.
     Inr (s\<lparr>layers := map fst rs, state_v_bs := map snd rs\<rparr>))"

text \<open>
  \<open>_init_layers\<close>.  In a single model the loop appends one entry per specification; in a
  multi-model the walk is repeated for every replica \<open>m\<close>, replica 0 creating the entries
  and the shape metadata and the later ones appending to the entries.
\<close>

definition init_layers :: "torch_env \<Rightarrow> snn_config \<Rightarrow> error + snn" where
  "init_layers env cfg =
     ebind (parse_input_shape (network_size cfg)) (\<lambda>_.
     let specs = tl (network_size cfg);
         nl = int (length (network_size cfg)) - 1
     in
     ebind
       (if multi_model cfg then
          ebind (emap (\<lambda>m. emap (init_single_layer env True) specs) [0..<num_models cfg]) (\<lambda>rs.
          let r0 = (case rs of [] \<Rightarrow> [] | r # _ \<Rightarrow> r) in
          Inr (map (\<lambda>l. Multi (map (\<lambda>r. fst (r ! l)) rs)) [0..<length r0],
               map (\<lambda>l. Multi (map (\<lambda>r. fst (snd (r ! l))) rs)) [0..<length r0],
               map (\<lambda>x. fst (snd (snd x))) r0,
               map (\<lambda>x. snd (snd (snd x))) r0))
        else
          ebind (emap (init_single_layer env False) specs) (\<lambda>r0.
          Inr (map (\<lambda>x. Single (fst x)) r0,
               map (\<lambda>x. Single (fst (snd x))) r0,
               map (\<lambda>x. fst (snd (snd x))) r0,
               map (\<lambda>x. snd (snd (snd x))) r0)))
       (\<lambda>(ls, bs, shapes, types).
          reset_parameters env
            (snn_config.extend cfg
               \<lparr>num_layer = nl, layers = ls, state_v_bs = bs,
                fmap_shape_list = shapes, fmap_type_list = types,
                input = None, output_s_cum = None, state_i = [], state_v = [],
                state_v_prime = [], state_s = [], weight_list = [], bias_list = [],
                term_length = None, output_tensor = None, output_each_model = None,
                num_spike_total = Single [], num_spike_nec = Single [],
                first_stime_min = None, first_stime_mean = None, batch_size = None,
                diff = None, loss_L = None, loss = None, warnings = []\<rparr>)))"

text \<open>\<open>ListSNNMulti.__init__\<close>.\<close>

definition snn_init :: "torch_env \<Rightarrow> snn_config \<Rightarrow> error + snn" where
  "snn_init env cfg =
     (if \<not> multi_model cfg \<and> num_models cfg \<noteq> 1
      then Inl (ValueError ''must set multi-model flag as True when num_models > 1'')
      else ebind (init_kernels cfg) (\<lambda>c1. init_layers env c1))"



text \<open>A stand-in for the numeric library, and two more configurations, used to run the definitions.\<close>

definition env_demo :: torch_env where
  "env_demo = \<lparr>
     init_weight = (\<lambda>sh. \<lparr>shape = sh, vals = replicate (prod_list sh) 0\<rparr>),
     normal_init = (\<lambda>std w. w),
     conv2d = (\<lambda>w p x. Inl (RuntimeError ''conv2d'')),
     avg_pool2d = (\<lambda>k x. Inl (RuntimeError ''avg_pool2d'')),
     max_pool2d = (\<lambda>k x. Inl (RuntimeError ''max_pool2d''))\<rparr>"

definition cfg_fc :: snn_config where
  "cfg_fc = cfg_demo\<lparr>network_size := [''4'', ''fc2'']\<rparr>"

definition cfg_bogus :: snn_config where
  "cfg_bogus = cfg_demo\<lparr>target_type := ''bogus''\<rparr>"

section \<open>Tensor operations\<close>

text \<open>
  The operations of the numeric library that the forward pass uses, on shapes and row-major
  entries.  An operation whose operand shapes do not fit raises, as the library does.
\<close>

definition numel :: "nat list \<Rightarrow> nat" where
  "numel sh = prod_list sh"

text \<open>The \<open>k\<close> consecutive blocks of \<open>n\<close> entries of a list.\<close>

definition chunks :: "nat \<Rightarrow> nat \<Rightarrow> 'a list \<Rightarrow> 'a list list" where
  "chunks n k xs = map (\<lambda>i. take n (drop (i * n) xs)) [0..<k]"

text \<open>Elementwise application, and multiplication by a Python number.\<close>

definition tmap :: "(real \<Rightarrow> real) \<Rightarrow> tensor \<Rightarrow> tensor" where
  "tmap f x = x\<lparr>vals := map f (vals x)\<rparr>"

text \<open>
  Broadcasting of two shapes, aligned at their last dimensions: two dimensions fit when they
  are equal or one of them is 1.
\<close>

fun broadcast_rev :: "nat list \<Rightarrow> nat list \<Rightarrow> nat list option" where
  "broadcast_rev [] bs = Some bs"
| "broadcast_rev (a # as) [] = Some (a # as)"
| "broadcast_rev (a # as) (b # bs) =
     (if a = b \<or> b = 1 then map_option ((#) a) (broadcast_rev as bs)
      else if a = 1 then map_option ((#) b) (broadcast_rev as bs)
      else None)"

definition broadcast_shapes :: "nat list \<Rightarrow> nat list \<Rightarrow> nat list option" where
  "broadcast_shapes a b = map_option rev (broadcast_rev (rev a) (rev b))"

text \<open>
  The entries of a tensor of shape \<open>ss\<close> expanded to the shape \<open>ts\<close> it broadcasts to:
  a missing leading dimension and a dimension of size 1 repeat their block.
\<close>

fun expand_vals :: "nat list \<Rightarrow> nat list \<Rightarrow> real list \<Rightarrow> real list" where
  "expand_vals [] ss xs = xs"
| "expand_vals (d # ts) ss xs =
     (if length ss \<le> length ts then concat (replicate d (expand_vals ts ss xs))
      else if hd ss = 1 \<and> d \<noteq> 1 then concat (replicate d (expand_vals ts (tl ss) xs))
      else concat (map (expand_vals ts (tl ss)) (chunks (numel (tl ss)) d xs)))"

text \<open>\<open>a op b\<close>, giving a new tensor.\<close>

definition tbin :: "(real \<Rightarrow> real \<Rightarrow> real) \<Rightarrow> tensor \<Rightarrow> tensor \<Rightarrow> error + tensor" where
  "tbin f a b =
     (case broadcast_shapes (shape a) (shape b) of
        None \<Rightarrow> Inl (RuntimeError ''shapes cannot be broadcast'')
      | Some sh \<Rightarrow>
          Inr \<lparr>shape = sh,
               vals = map2 f (expand_vals sh (shape a) (vals a))
                             (expand_vals sh (shape b) (vals b))\<rparr>)"

text \<open>
  \<open>a op= b\<close>, in place: the result must have the shape of \<open>a\<close>, so \<open>b\<close> may be
  broadcast to \<open>a\<close> but \<open>a\<close> is never enlarged.
\<close>

definition tbin_inplace :: "(real \<Rightarrow> real \<Rightarrow> real) \<Rightarrow> tensor \<Rightarrow> tensor \<Rightarrow> error + tensor" where
  "tbin_inplace f a b =
     (if broadcast_shapes (shape a) (shape b) = Some (shape a)
      then Inr (a\<lparr>vals := map2 f (vals a) (expand_vals (shape a) (shape b) (vals b))\<rparr>)
      else Inl (RuntimeError ''output shape does not match the broadcast shape''))"

definition zeros :: "nat list \<Rightarrow> tensor" where
  "zeros sh = \<lparr>shape = sh, vals = replicate (numel sh) 0\<rparr>"

text \<open>\<open>x.reshape(sh)\<close> and the two reshapes of the multi-model path.\<close>

definition reshape :: "nat list \<Rightarrow> tensor \<Rightarrow> error + tensor" where
  "reshape sh x =
     (if numel sh = numel (shape x) then Inr (x\<lparr>shape := sh\<rparr>)
      else Inl (RuntimeError ''shape is invalid for input''))"

text \<open>\<open>x.reshape(x.shape[0] * x.shape[1], *x.shape[2:])\<close>.\<close>

definition merge_first_two :: "tensor \<Rightarrow> error + tensor" where
  "merge_first_two x =
     (case shape x of
        a # b # rest \<Rightarrow> Inr (x\<lparr>shape := (a * b) # rest\<rparr>)
      | _ \<Rightarrow> Inl IndexError)"

text \<open>\<open>x.reshape(num_models, int(x.shape[0] / num_models), *x.shape[1:])\<close>.\<close>

definition split_models :: "nat \<Rightarrow> tensor \<Rightarrow> error + tensor" where
  "split_models m x =
     (case shape x of
        [] \<Rightarrow> Inl IndexError
      | s0 # rest \<Rightarrow>
          if m = 0 then Inl ZeroDivisionError
          else reshape (m # (s0 div m) # rest) x)"

text \<open>Indexing one position \<open>t\<close> of axis \<open>k\<close>: \<open>x[:, t]\<close> is axis 1, \<open>x[:, :, t]\<close> axis 2.\<close>

definition select_axis :: "nat \<Rightarrow> nat \<Rightarrow> tensor \<Rightarrow> error + tensor" where
  "select_axis k t x =
     (let sh = shape x in
      if k < length sh \<and> t < sh ! k then
        (let inner = numel (drop (k + 1) sh); outer = numel (take k sh) in
         Inr \<lparr>shape = take k sh @ drop (k + 1) sh,
              vals = concat (map (\<lambda>c. take inner (drop (t * inner) c))
                               (chunks (sh ! k * inner) outer (vals x)))\<rparr>)
      else Inl IndexError)"

text \<open>\<open>torch.stack\<close> of a Python list of tensors.\<close>

definition stack :: "tensor list \<Rightarrow> error + tensor" where
  "stack ts =
     (case ts of
        [] \<Rightarrow> Inl (RuntimeError ''stack expects a non-empty TensorList'')
      | x # _ \<Rightarrow>
          if list_all (\<lambda>u. shape u = shape x) ts
          then Inr \<lparr>shape = length ts # shape x, vals = concat (map vals ts)\<rparr>
          else Inl (RuntimeError ''stack expects each tensor to be equal size''))"

text \<open>\<open>x.permute(1, 0, 2)\<close>, defined on rank 3.\<close>

definition permute102 :: "tensor \<Rightarrow> error + tensor" where
  "permute102 x =
     (case shape x of
        [a, b, c] \<Rightarrow>
          Inr \<lparr>shape = [b, a, c],
               vals = concat (concat (map (\<lambda>j. map (\<lambda>blk. blk ! j)
                                (map (chunks c b) (chunks (b * c) a (vals x)))) [0..<b]))\<rparr>
      | _ \<Rightarrow> Inl (RuntimeError ''permute: number of dims does not match''))"

text \<open>The inner product of two rows, and \<open>F.linear(x, W)\<close> without bias: \<open>x @ W.T\<close>.\<close>

definition dot :: "real list \<Rightarrow> real list \<Rightarrow> real" where
  "dot xs ys = sum_list (map2 (*) xs ys)"

definition linear_fwd :: "tensor \<Rightarrow> tensor \<Rightarrow> error + tensor" where
  "linear_fwd W x =
     (case shape W of
        [n, k] \<Rightarrow>
          if shape x \<noteq> [] \<and> last (shape x) = k then
            Inr \<lparr>shape = butlast (shape x) @ [n],
                 vals = concat (map (\<lambda>row. map (dot row) (chunks k n (vals W)))
                                  (chunks k (numel (butlast (shape x))) (vals x)))\<rparr>
          else Inl (RuntimeError ''mat1 and mat2 shapes cannot be multiplied'')
      | _ \<Rightarrow> Inl (RuntimeError ''weight is not a matrix''))"

text \<open>
  \<open>torch.bmm(a, W.permute(0, 2, 1))\<close> for \<open>a\<close> of shape \<open>[m, b, k]\<close> and \<open>W\<close> of shape
  \<open>[m, n, k]\<close>: for every replica the rows of \<open>a\<close> times the transposed weight.
\<close>

definition bmm_wT :: "tensor \<Rightarrow> tensor \<Rightarrow> error + tensor" where
  "bmm_wT a W =
     (case (shape a, shape W) of
        ([m, b, k], [m', n, k']) \<Rightarrow>
          if m = m' \<and> k = k' then
            Inr \<lparr>shape = [m, b, n],
                 vals = concat (map2 (\<lambda>am wm.
                          concat (map (\<lambda>row. map (dot row) (chunks k n wm)) (chunks k b am)))
                          (chunks (b * k) m (vals a)) (chunks (n * k) m (vals W)))\<rparr>
          else Inl (RuntimeError ''batch1 and batch2 shapes do not fit'')
      | _ \<Rightarrow> Inl (RuntimeError ''batch1 and batch2 must be 3D tensors''))"

text \<open>\<open>nn.Flatten()\<close>: all dimensions after the first become one.\<close>

definition flatten_fwd :: "tensor \<Rightarrow> error + tensor" where
  "flatten_fwd x =
     (case shape x of
        a # b # rest \<Rightarrow> Inr (x\<lparr>shape := [a, numel (b # rest)]\<rparr>)
      | _ \<Rightarrow> Inl IndexError)"

text \<open>The activation \<open>act\<close>: \<open>(input >= 1).float()\<close>.\<close>

definition act :: "tensor \<Rightarrow> tensor" where
  "act x = tmap (\<lambda>v. if v \<ge> 1 then 1 else 0) x"

text \<open>\<open>torch.clamp(x, min=1e-2)\<close>.\<close>

definition clamp_min :: "real \<Rightarrow> tensor \<Rightarrow> tensor" where
  "clamp_min m x = tmap (max m) x"

text \<open>Python list indexing: \<open>xs[i]\<close> for \<open>i \<ge> 0\<close>, \<open>xs[-1]\<close>, \<open>xs[-2]\<close>, and \<open>xs[i]\<close> for an integer.\<close>

definition py_nth :: "'a list \<Rightarrow> nat \<Rightarrow> error + 'a" where
  "py_nth xs i = (if i < length xs then Inr (xs ! i) else Inl IndexError)"

definition py_back :: "'a list \<Rightarrow> nat \<Rightarrow> error + 'a" where
  "py_back xs k = (if 0 < k \<and> k \<le> length xs then Inr (xs ! (length xs - k)) else Inl IndexError)"

definition py_index :: "'a list \<Rightarrow> int \<Rightarrow> error + 'a" where
  "py_index xs i = (if i < 0 then py_back xs (nat (- i)) else py_nth xs (nat i))"

section \<open>Forward simulator (\<open>forward\<close>)\<close>

text \<open>
  The forward pass assigns attributes of the network object as it goes, and what it has
  assigned stays assigned when it raises.  A step of it therefore returns either the new
  object, or the exception together with the object as it was when the exception was
  raised.  \<open>lift s\<close> turns the error of a pure operation into an exception raised in
  state \<open>s\<close>.
\<close>

definition lift :: "'s \<Rightarrow> error + 'a \<Rightarrow> (error \<times> 's) + 'a" where
  "lift s m = (case m of Inl e \<Rightarrow> Inl (e, s) | Inr x \<Rightarrow> Inr x)"

text \<open>\<open>xss[l].append(x)\<close> and \<open>xss[l][-1] = x\<close> on a list of lists.\<close>

definition app_l :: "'a list list \<Rightarrow> nat \<Rightarrow> 'a \<Rightarrow> 'a list list" where
  "app_l xss l x = xss[l := xss ! l @ [x]]"

definition set_last_l :: "'a list list \<Rightarrow> nat \<Rightarrow> 'a \<Rightarrow> 'a list list" where
  "set_last_l xss l x = xss[l := butlast (xss ! l) @ [x]]"

text \<open>\<open>xss[l][-k]\<close> and \<open>xss[l][i]\<close>.\<close>

definition back_l :: "'a list list \<Rightarrow> nat \<Rightarrow> nat \<Rightarrow> error + 'a" where
  "back_l xss l k = ebind (py_nth xss l) (\<lambda>xs. py_back xs k)"

definition nth_l :: "'a list list \<Rightarrow> nat \<Rightarrow> nat \<Rightarrow> error + 'a" where
  "nth_l xss l i = ebind (py_nth xss l) (\<lambda>xs. py_nth xs i)"

text \<open>\<open>layer = layers[0] if self.multi_model else layers\<close>.\<close>

definition rep_layer :: "bool \<Rightarrow> nn_module slot \<Rightarrow> error + pyobj" where
  "rep_layer mm sl =
     (if mm then
        (case sl of
           Multi ms \<Rightarrow> (case ms of [] \<Rightarrow> Inl IndexError | m # _ \<Rightarrow> Inr (ObjModule m))
         | Single _ \<Rightarrow> Inl (TypeError ''module object is not subscriptable''))
      else
        (case sl of Single m \<Rightarrow> Inr (ObjModule m) | Multi ms \<Rightarrow> Inr (ObjList ms)))"

definition is_apool_or_flatten :: "pyobj \<Rightarrow> bool" where
  "is_apool_or_flatten obj =
     (case obj of
        ObjModule (AvgPool2d _) \<Rightarrow> True
      | ObjModule Flatten \<Rightarrow> True
      | _ \<Rightarrow> False)"

definition is_maxpool :: "pyobj \<Rightarrow> bool" where
  "is_maxpool obj = (case obj of ObjModule (MaxPool2d _ _) \<Rightarrow> True | _ \<Rightarrow> False)"

text \<open>Calling a convolution, linear, average-pool or flatten module on a tensor.\<close>

definition module_fwd :: "torch_env \<Rightarrow> nn_module \<Rightarrow> tensor \<Rightarrow> error + tensor" where
  "module_fwd env m x =
     (case m of
        Conv2d w p \<Rightarrow> conv2d env (data w) p x
      | Linear w \<Rightarrow> linear_fwd (data w) x
      | AvgPool2d k \<Rightarrow> avg_pool2d env k x
      | Flatten \<Rightarrow> flatten_fwd x
      | MaxPool2d k idx \<Rightarrow> Inl (TypeError ''max pool returns a pair''))"

definition module_weight :: "nn_module \<Rightarrow> parameter option" where
  "module_weight m =
     (case m of Conv2d w _ \<Rightarrow> Some w | Linear w \<Rightarrow> Some w | _ \<Rightarrow> None)"

text \<open>
  The bias parameter \<open>self.state_v_bs[l]\<close> of a single model, and writing new entries into
  its storage.
\<close>

definition single_bias :: "snn \<Rightarrow> nat \<Rightarrow> error + parameter" where
  "single_bias s l =
     ebind (py_nth (state_v_bs s) l) (\<lambda>sl.
       case sl of
         Single (Some p) \<Rightarrow> Inr p
       | Single None \<Rightarrow> Inl (TypeError ''unsupported operand: NoneType'')
       | Multi _ \<Rightarrow> Inl (TypeError ''unsupported operand: list''))"

definition set_bias_vals :: "snn \<Rightarrow> nat \<Rightarrow> real list \<Rightarrow> snn" where
  "set_bias_vals s l vs =
     (case state_v_bs s ! l of
        Single (Some p) \<Rightarrow>
          s\<lparr>state_v_bs := (state_v_bs s)[l := Single (Some (p\<lparr>data := (data p)\<lparr>vals := vs\<rparr>\<rparr>))]\<rparr>
      | _ \<Rightarrow> s)"

text \<open>The tensor an entry of \<open>state_v[l]\<close> denotes in state \<open>s\<close>.\<close>

definition read_v :: "snn \<Rightarrow> nat \<Rightarrow> vref \<Rightarrow> error + tensor" where
  "read_v s l r =
     (case r of
        Own x \<Rightarrow> Inr x
      | BiasView sh \<Rightarrow> ebind (single_bias s l) (\<lambda>p. Inr \<lparr>shape = sh, vals = vals (data p)\<rparr>))"

text \<open>
  An in-place operation on \<open>self.state_v[l][-1]\<close>: on an own tensor it replaces the entry,
  on a view of the bias it writes the storage of the bias.
\<close>

definition v_last_inplace ::
  "snn \<Rightarrow> nat \<Rightarrow> (tensor \<Rightarrow> error + tensor) \<Rightarrow> (error \<times> snn) + snn"
where
  "v_last_inplace s l f =
     ebind (lift s (back_l (state_v s) l 1)) (\<lambda>r.
     ebind (lift s (read_v s l r)) (\<lambda>cur.
     ebind (lift s (f cur)) (\<lambda>new.
       case r of
         Own _ \<Rightarrow> Inr (s\<lparr>state_v := set_last_l (state_v s) l (Own new)\<rparr>)
       | BiasView _ \<Rightarrow> Inr (set_bias_vals s l (vals new)))))"

text \<open>
  Eq. (2), the synaptic current of layer \<open>l\<close> at step \<open>t\<close>: the weighted input times
  \<open>beta_i\<close> is appended to \<open>state_i[l]\<close>; for \<open>t \<noteq> 0\<close> the decayed previous current,
  gated by \<open>1 - state_s[l][-1]\<close>, is added in place.  At that point \<open>state_s[l][-1]\<close> is
  the spike of step \<open>t - 1\<close>, since the spike of step \<open>t\<close> is appended last.
\<close>

definition update_i ::
  "torch_env \<Rightarrow> tensor \<Rightarrow> nat \<Rightarrow> nat \<Rightarrow> nn_module \<Rightarrow> snn \<Rightarrow> (error \<times> snn) + snn"
where
  "update_i env inp t l layer s =
     ebind
       (if l = 0 then
          (if multi_model s then
             ebind (lift s (select_axis 2 t inp)) (\<lambda>x.
             ebind (lift s (py_nth (weight_list s) l)) (\<lambda>w.
             ebind (lift s (case w of None \<Rightarrow> Inl (AttributeError ''permute'')
                                    | Some W \<Rightarrow> bmm_wT x W)) (\<lambda>cur_i.
             ebind (lift s (merge_first_two cur_i)) (\<lambda>r.
             Inr (tmap (\<lambda>v. v * beta_i s) r)))))
           else
             ebind (lift s (select_axis 1 t inp)) (\<lambda>x.
             ebind (lift s (module_fwd env layer x)) (\<lambda>y.
             Inr (tmap (\<lambda>v. v * beta_i s) y))))
        else if multi_model s then
          ebind (lift s (back_l (state_s s) (l - 1) 1)) (\<lambda>prev_s.
          ebind (lift s (split_models (num_models s) prev_s)) (\<lambda>state_s_rs.
          ebind (lift s (py_nth (weight_list s) l)) (\<lambda>w.
          ebind (lift s (case w of None \<Rightarrow> Inl (AttributeError ''permute'')
                                 | Some W \<Rightarrow> bmm_wT state_s_rs W)) (\<lambda>y.
          lift s (merge_first_two (tmap (\<lambda>v. v * beta_i s) y))))))
        else
          ebind (lift s (back_l (state_s s) (l - 1) 1)) (\<lambda>x.
          ebind (lift s (module_fwd env layer x)) (\<lambda>y.
          Inr (tmap (\<lambda>v. v * beta_i s) y))))
       (\<lambda>new_i.
          let s1 = s\<lparr>state_i := app_l (state_i s) l new_i\<rparr> in
          if t \<noteq> 0 then
            ebind (lift s1 (nth_l (state_i s1) l (t - 1))) (\<lambda>prev_i.
            ebind (lift s1 (back_l (state_s s1) l 1)) (\<lambda>sp.
            ebind (lift s1 (tbin_inplace (*) (tmap (\<lambda>v. alpha_i s1 * v) prev_i)
                              (tmap (\<lambda>v. 1 - v) sp))) (\<lambda>idelta.
            ebind (lift s1 (back_l (state_i s1) l 1)) (\<lambda>cur.
            ebind (lift s1 (tbin_inplace (+) cur idelta)) (\<lambda>cur'.
            Inr (s1\<lparr>state_i := set_last_l (state_i s1) l cur'\<rparr>))))))
          else Inr s1)"

text \<open>
  Eq. (1), the membrane potential before the decay term.  The multi-model path computes
  \<open>state_i * beta_v\<close> as a new tensor and adds the scaled bias to it.  The single-model
  path binds \<open>state_v\<close> to the bias parameter (a view of it for a rank-4 current),
  multiplies it in place by \<open>beta_bias\<close>, adds \<open>state_i * beta_v\<close> to it in place, and
  appends it.
\<close>

definition update_v :: "nat \<Rightarrow> snn \<Rightarrow> (error \<times> snn) + snn" where
  "update_v l s =
     (if multi_model s then
        ebind (lift s (back_l (state_i s) l 1)) (\<lambda>cur_i.
        ebind (lift s (split_models (num_models s) cur_i)) (\<lambda>state_i_rs.
        let new_v = tmap (\<lambda>v. v * beta_v s) state_i_rs in
        ebind (lift s (py_nth (bias_list s) l)) (\<lambda>b.
        ebind (lift s (case b of None \<Rightarrow> Inl (TypeError ''unsupported operand: NoneType'')
                               | Some bias \<Rightarrow>
                                   tbin_inplace (+) new_v (tmap (\<lambda>v. v * beta_bias s) bias)))
          (\<lambda>new_v'.
        ebind (lift s (merge_first_two new_v')) (\<lambda>r.
        Inr (s\<lparr>state_v := app_l (state_v s) l (Own r)\<rparr>))))))
      else
        ebind (lift s (back_l (state_i s) l 1)) (\<lambda>cur_i.
        let rank = length (shape cur_i) in
        ebind (if rank = 2 then
                 ebind (lift s (single_bias s l)) (\<lambda>p. Inr (p, BiasView (shape (data p))))
               else if rank = 4 then
                 ebind (lift s (case single_bias s l of
                                  Inl (TypeError _) \<Rightarrow> Inl (AttributeError ''view'')
                                | r \<Rightarrow> r)) (\<lambda>p.
                   Inr (p, BiasView [numel (shape (data p)), 1, 1]))
               else Inl (ValueError ''expected multi-model or model with rank(I) in {2, 4}'', s))
          (\<lambda>(p, vr).
        let s1 = set_bias_vals s l (map (\<lambda>v. v * beta_bias s) (vals (data p))) in
        ebind (lift s1 (read_v s1 l vr)) (\<lambda>cur.
        ebind (lift s1 (tbin_inplace (+) cur (tmap (\<lambda>v. v * beta_v s1) cur_i))) (\<lambda>new.
        let s2 = set_bias_vals s1 l (vals new) in
        Inr (s2\<lparr>state_v := app_l (state_v s2) l vr\<rparr>))))))"

text \<open>
  The decay of the potential and the helper \<open>state_v_prime\<close>.  For \<open>t \<noteq> 0\<close>:
  \<open>state_v[l][-1] += state_v[l][t-1] * (1 - state_s[l][-1]) * alpha_v\<close>, then
  \<open>state_v_prime = (-1) * state_v[l][-2]\<close>, \<open>state_v_prime *= 1 - state_s[l][-1]\<close>,
  \<open>state_v_prime += state_v[l][-1]\<close>.  For \<open>t = 0\<close> the helper is the potential.  The
  stored helper is clamped to at least 0.01.
\<close>

definition update_v_prime :: "nat \<Rightarrow> nat \<Rightarrow> snn \<Rightarrow> (error \<times> snn) + snn" where
  "update_v_prime t l s =
     ebind
       (if t \<noteq> 0 then
          ebind (lift s (ebind (nth_l (state_v s) l (t - 1)) (read_v s l))) (\<lambda>prev_v.
          ebind (lift s (back_l (state_s s) l 1)) (\<lambda>sp.
          ebind (lift s (tbin (*) prev_v (tmap (\<lambda>v. 1 - v) sp))) (\<lambda>prod.
          ebind (v_last_inplace s l (\<lambda>cur.
                   tbin_inplace (+) cur (tmap (\<lambda>v. v * alpha_v s) prod))) (\<lambda>s1.
          ebind (lift s1 (ebind (back_l (state_v s1) l 2) (read_v s1 l))) (\<lambda>v2.
          ebind (lift s1 (back_l (state_s s1) l 1)) (\<lambda>sp1.
          ebind (lift s1 (tbin_inplace (*) (tmap (\<lambda>v. (- 1) * v) v2)
                            (tmap (\<lambda>v. 1 - v) sp1))) (\<lambda>vp.
          ebind (lift s1 (ebind (back_l (state_v s1) l 1) (read_v s1 l))) (\<lambda>v1.
          ebind (lift s1 (tbin_inplace (+) vp v1)) (\<lambda>vp'.
          Inr (s1, vp'))))))))))
        else
          ebind (lift s (ebind (back_l (state_v s) l 1) (read_v s l))) (\<lambda>v1. Inr (s, v1)))
       (\<lambda>(s2, vp).
          Inr (s2\<lparr>state_v_prime := app_l (state_v_prime s2) l (clamp_min (1 / 100) vp)\<rparr>))"

text \<open>\<open>self.state_s[l].append(self.act(self.state_v[l][-1]))\<close>.\<close>

definition emit_spike :: "nat \<Rightarrow> snn \<Rightarrow> (error \<times> snn) + snn" where
  "emit_spike l s =
     ebind (lift s (ebind (back_l (state_v s) l 1) (read_v s l))) (\<lambda>v.
     Inr (s\<lparr>state_s := app_l (state_s s) l (act v)\<rparr>))"

text \<open>Appending the pooling indices to the \<open>max_index_list\<close> of the pool module.\<close>

definition append_max_index :: "tensor \<Rightarrow> nn_module slot \<Rightarrow> nn_module slot" where
  "append_max_index idx sl =
     (case sl of
        Single (MaxPool2d k is) \<Rightarrow> Single (MaxPool2d k (is @ [idx]))
      | Multi (MaxPool2d k is # ms) \<Rightarrow> Multi (MaxPool2d k (is @ [idx]) # ms)
      | _ \<Rightarrow> sl)"

text \<open>One layer at one timestep: the body of the inner loop of \<open>forward\<close>.\<close>

definition layer_step ::
  "torch_env \<Rightarrow> tensor \<Rightarrow> nat \<Rightarrow> nat \<Rightarrow> snn \<Rightarrow> (error \<times> snn) + snn"
where
  "layer_step env inp t l s =
     ebind (lift s (rep_layer (multi_model s) (layers s ! l))) (\<lambda>obj.
       if is_conv2d_or_linear obj then
         (case obj of
            ObjModule layer \<Rightarrow>
              ebind (update_i env inp t l layer s) (\<lambda>s1.
              ebind (update_v l s1) (\<lambda>s2.
              ebind (update_v_prime t l s2) (\<lambda>s3.
              emit_spike l s3)))
          | _ \<Rightarrow> Inr s)
       else if is_apool_or_flatten obj then
         (case obj of
            ObjModule layer \<Rightarrow>
              ebind (if l = 0 then
                       lift s (case input s of
                                 None \<Rightarrow> Inl (TypeError ''NoneType is not subscriptable'')
                               | Some x \<Rightarrow> select_axis 1 t x)
                     else lift s (back_l (state_s s) (l - 1) 1)) (\<lambda>x.
              ebind (lift s (module_fwd env layer x)) (\<lambda>y.
              Inr (s\<lparr>state_s := app_l (state_s s) l y\<rparr>)))
          | _ \<Rightarrow> Inr s)
       else if is_maxpool obj then
         (case obj of
            ObjModule (MaxPool2d k _) \<Rightarrow>
              ebind (lift s (ebind (py_index (state_s s) (int l - 1)) (\<lambda>xs. py_back xs 1))) (\<lambda>x.
              ebind (lift s (max_pool2d env k x)) (\<lambda>(pool_result, max_index).
              Inr (s\<lparr>layers := (layers s)[l := append_max_index max_index (layers s ! l)],
                      state_s := app_l (state_s s) l pool_result\<rparr>)))
          | _ \<Rightarrow> Inr s)
       else Inr s)"

text \<open>The inner loop: the layers in order.\<close>

fun layer_loop ::
  "torch_env \<Rightarrow> tensor \<Rightarrow> nat \<Rightarrow> nat list \<Rightarrow> snn \<Rightarrow> (error \<times> snn) + snn"
where
  "layer_loop env inp t [] s = Inr s"
| "layer_loop env inp t (l # ls) s =
     ebind (layer_step env inp t l s) (\<lambda>s1. layer_loop env inp t ls s1)"

text \<open>
  The early-exit test of the outer loop in latency mode: the last layer's spikes of this
  step are added to \<open>output_s_cum\<close> in place, and the loop breaks when all entries are
  positive.  The result tells whether to break.
\<close>

definition all_positive :: "tensor \<Rightarrow> bool" where
  "all_positive x = list_all (\<lambda>v. v > 0) (vals x)"

definition latency_check :: "snn \<Rightarrow> (error \<times> snn) + (bool \<times> snn)" where
  "latency_check s =
     ebind (lift s (ebind (py_back (state_s s) 1) (\<lambda>xs. py_back xs 1))) (\<lambda>sp.
     ebind (lift s (case output_s_cum s of
                      None \<Rightarrow> Inl (AttributeError ''output_s_cum'')
                    | Some c \<Rightarrow> tbin_inplace (+) c sp)) (\<lambda>c'.
     Inr (all_positive c', s\<lparr>output_s_cum := Some c'\<rparr>)))"

text \<open>
  The outer loop \<open>for t in range(self.time_length)\<close> over the remaining timesteps.  It
  returns the last value the loop variable \<open>t\<close> took (none when the loop body never ran)
  and the state.
\<close>

fun time_loop ::
  "torch_env \<Rightarrow> tensor \<Rightarrow> nat list \<Rightarrow> nat option \<Rightarrow> snn \<Rightarrow> (error \<times> snn) + (nat option \<times> snn)"
where
  "time_loop env inp [] last_t s = Inr (last_t, s)"
| "time_loop env inp (t # ts) last_t s =
     ebind (layer_loop env inp t [0..<length (layers s)] s) (\<lambda>s1.
       if target_type s1 = ''latency'' then
         ebind (latency_check s1) (\<lambda>(stop, s2).
           if stop then Inr (Some t, s2) else time_loop env inp ts (Some t) s2)
       else time_loop env inp ts (Some t) s1)"

text \<open>
  The merged parameters of a multi-model: for every layer the stacked weights of the
  replicas (or \<open>None\<close> when the first replica has no weight), and the stacked biases with
  an added axis (or \<open>None\<close> when the first replica's bias is \<open>None\<close>).
\<close>

definition merge_weights :: "nn_module slot \<Rightarrow> error + tensor option" where
  "merge_weights sl =
     (case sl of
        Single _ \<Rightarrow> Inl (TypeError ''module object is not subscriptable'')
      | Multi ms \<Rightarrow>
          (case ms of
             [] \<Rightarrow> Inl IndexError
           | m # _ \<Rightarrow>
               if module_weight m = None then Inr None
               else
                 ebind (emap (\<lambda>m'. case module_weight m' of
                                       None \<Rightarrow> Inl (AttributeError ''weight'')
                                     | Some w \<Rightarrow> Inr (data w)) ms) (\<lambda>ws.
                 ebind (stack ws) (\<lambda>w. Inr (Some w)))))"

definition unsqueeze1 :: "tensor \<Rightarrow> error + tensor" where
  "unsqueeze1 x =
     (case shape x of
        [] \<Rightarrow> Inl IndexError
      | a # rest \<Rightarrow> Inr (x\<lparr>shape := a # 1 # rest\<rparr>))"

definition merge_biases :: "parameter option slot \<Rightarrow> error + tensor option" where
  "merge_biases sl =
     (case sl of
        Single _ \<Rightarrow> Inl (TypeError ''object is not subscriptable'')
      | Multi bs \<Rightarrow>
          (case bs of
             [] \<Rightarrow> Inl IndexError
           | b # _ \<Rightarrow>
               if b = None then Inr None
               else
                 ebind (emap (\<lambda>b'. case b' of
                                       None \<Rightarrow> Inl (TypeError ''expected Tensor, got NoneType'')
                                     | Some p \<Rightarrow> Inr (data p)) bs) (\<lambda>xs.
                 ebind (stack xs) (\<lambda>x.
                 ebind (unsqueeze1 x) (\<lambda>y. Inr (Some y))))))"

text \<open>The two loops that fill \<open>self.weight_list\<close> and \<open>self.bias_list\<close>.\<close>

fun merge_weight_loop :: "nn_module slot list \<Rightarrow> snn \<Rightarrow> (error \<times> snn) + snn" where
  "merge_weight_loop [] s = Inr s"
| "merge_weight_loop (sl # rest) s =
     ebind (lift s (merge_weights sl)) (\<lambda>w.
     merge_weight_loop rest (s\<lparr>weight_list := weight_list s @ [w]\<rparr>))"

fun merge_bias_loop :: "parameter option slot list \<Rightarrow> snn \<Rightarrow> (error \<times> snn) + snn" where
  "merge_bias_loop [] s = Inr s"
| "merge_bias_loop (sl # rest) s =
     ebind (lift s (merge_biases sl)) (\<lambda>b.
     merge_bias_loop rest (s\<lparr>bias_list := bias_list s @ [b]\<rparr>))"

text \<open>Resetting \<open>max_index_list\<close>: only an entry that is itself a max-pool module is reset.\<close>

definition flush_max_index :: "nn_module slot \<Rightarrow> nn_module slot" where
  "flush_max_index sl =
     (case sl of Single (MaxPool2d k is) \<Rightarrow> Single (MaxPool2d k []) | _ \<Rightarrow> sl)"

section \<open>Spike statistics (\<open>calc_first_stime\<close>, \<open>calc_num_spike\<close>)\<close>

text \<open>\<open>int(x)\<close> and \<open>.int()\<close>: truncation towards zero.\<close>

definition trunc :: "real \<Rightarrow> int" where
  "trunc x = (if x \<ge> 0 then \<lfloor>x\<rfloor> else \<lceil>x\<rceil>)"

text \<open>\<open>x.max(dim=1).values\<close> and \<open>x.min(dim=1).values\<close>: reduction of the second axis.\<close>

definition reduce_dim1 :: "(real \<Rightarrow> real \<Rightarrow> real) \<Rightarrow> tensor \<Rightarrow> error + tensor" where
  "reduce_dim1 f x =
     (case shape x of
        a # b # rest \<Rightarrow>
          if b = 0 then Inl IndexError
          else
            (let inner = numel rest in
             Inr \<lparr>shape = a # rest,
                  vals = concat (map (\<lambda>blk.
                           map (\<lambda>j. (let col = map (\<lambda>i. blk ! (i * inner + j)) [0..<b]
                                      in fold f (tl col) (hd col))) [0..<inner])
                           (chunks (b * inner) a (vals x)))\<rparr>)
      | _ \<Rightarrow> Inl IndexError)"

text \<open>\<open>torch.arange(n, 0, -1)\<close> viewed as \<open>[1, n, 1]\<close>.\<close>

definition arange_down :: "nat \<Rightarrow> tensor" where
  "arange_down n = \<lparr>shape = [1, n, 1], vals = map real (rev [1..<n + 1])\<rparr>"

text \<open>\<open>x.reshape(m, -1)\<close>.\<close>

definition reshape_rows :: "nat \<Rightarrow> tensor \<Rightarrow> error + tensor" where
  "reshape_rows m x =
     (if m \<noteq> 0 \<and> numel (shape x) mod m = 0
      then Inr (x\<lparr>shape := [m, numel (shape x) div m]\<rparr>)
      else Inl (RuntimeError ''shape is invalid for input''))"

text \<open>
  \<open>calc_first_stime\<close>: per example the first step at which any output neuron fired, from
  the maximum of the output weighted by \<open>term_length - t\<close>; it sets the minimum and the mean
  (per replica in a multi-model) and returns the times truncated to integers.
\<close>

definition mean :: "real list \<Rightarrow> real" where
  "mean xs = sum_list xs / real (length xs)"

definition calc_first_stime :: "snn \<Rightarrow> (error \<times> snn) + (int list \<times> snn)" where
  "calc_first_stime s =
     ebind (lift s (case term_length s of None \<Rightarrow> Inl (AttributeError ''term_length'')
                                        | Some n \<Rightarrow> Inr n)) (\<lambda>tlen.
     ebind (lift s (case output_tensor s of None \<Rightarrow> Inl (AttributeError ''output'')
                                          | Some x \<Rightarrow> Inr x)) (\<lambda>out.
     ebind (lift s (tbin (*) (arange_down tlen) out)) (\<lambda>decreasing_output.
     ebind (lift s (reduce_dim1 max decreasing_output)) (\<lambda>max_each_neuron.
     ebind (lift s (reduce_dim1 max max_each_neuron)) (\<lambda>max_whole_network.
     let first_stime = tmap (\<lambda>v. real tlen - v) max_whole_network in
     ebind
       (if multi_model s then
          ebind (lift s (reshape_rows (num_models s) first_stime)) (\<lambda>fm.
          ebind (lift s (reduce_dim1 min fm)) (\<lambda>mins.
          Inr (s\<lparr>first_stime_min := Some (Multi (vals mins)),
                  first_stime_mean := Some (Multi (map mean
                     (chunks (shape fm ! 1) (num_models s) (vals fm))))\<rparr>)))
        else
          (case vals first_stime of
             [] \<Rightarrow> Inl (RuntimeError ''min(): empty tensor'', s)
           | y # ys \<Rightarrow>
               Inr (s\<lparr>first_stime_min := Some (Single (fold min ys y)),
                       first_stime_mean := Some (Single (mean (y # ys)))\<rparr>)))
       (\<lambda>s1. Inr (map trunc (vals first_stime), s1)))))))"

text \<open>A Python slice \<open>xs[:k]\<close> for an integer \<open>k\<close>.\<close>

definition py_take :: "int \<Rightarrow> 'a list \<Rightarrow> 'a list" where
  "py_take k xs = (if k \<ge> 0 then take (nat k) xs else take (nat (int (length xs) + k)) xs)"

text \<open>
  \<open>torch.stack(self.state_s[l]).int()[:k, b].sum().item()\<close>: the truncated spikes of
  example \<open>b\<close> in the first \<open>k\<close> steps, summed.
\<close>

definition spikes_upto :: "tensor list \<Rightarrow> int \<Rightarrow> nat \<Rightarrow> error + int" where
  "spikes_upto ss k b =
     ebind (stack ss) (\<lambda>_.
     ebind (emap (select_axis 0 b) (py_take k ss)) (\<lambda>rows.
     Inr (sum_list (map (\<lambda>r. sum_list (map trunc (vals r))) rows))))"

text \<open>
  A loop over the layers that skips (\<open>continue\<close>) every layer whose representative module
  is not a convolution or linear module, and collects the value computed for the others.
\<close>

definition counted_layers :: "snn \<Rightarrow> (nat \<Rightarrow> error + 'a) \<Rightarrow> error + 'a list" where
  "counted_layers s f =
     ebind (emap (\<lambda>l. ebind (rep_layer (multi_model s) (layers s ! l)) (\<lambda>obj.
                       if \<not> is_conv2d_or_linear obj then Inr None
                       else ebind (f l) (\<lambda>x. Inr (Some x)))) [0..<length (layers s)]) (\<lambda>xs.
     Inr (concat (map (\<lambda>x. case x of None \<Rightarrow> [] | Some y \<Rightarrow> [y]) xs)))"

text \<open>
  \<open>x.reshape(m, b, tl, -1).sum(1).sum(1).sum(1)\<close>: the sum of each of the \<open>m\<close> blocks.
\<close>

definition block_sums :: "nat \<Rightarrow> nat \<Rightarrow> nat \<Rightarrow> tensor \<Rightarrow> error + real list" where
  "block_sums m b tlen x =
     (let p = m * b * tlen in
      if p \<noteq> 0 \<and> numel (shape x) mod p = 0
      then Inr (map sum_list (chunks (numel (shape x) div m) m (vals x)))
      else Inl (RuntimeError ''shape is invalid for input''))"

text \<open>\<open>torch.stack(rows).t().tolist()\<close> on a list of equally long integer rows.\<close>

definition stack_t :: "int list list \<Rightarrow> error + int list list" where
  "stack_t rows =
     (case rows of
        [] \<Rightarrow> Inl (RuntimeError ''stack expects a non-empty TensorList'')
      | r # _ \<Rightarrow>
          if list_all (\<lambda>u. length u = length r) rows
          then Inr (map (\<lambda>j. map (\<lambda>row. row ! j) rows) [0..<length r])
          else Inl (RuntimeError ''stack expects each tensor to be equal size''))"

definition calc_num_spike :: "snn \<Rightarrow> (error \<times> snn) + snn" where
  "calc_num_spike s =
     ebind
       (if multi_model s then
          ebind (lift s (counted_layers s (\<lambda>l.
                   ebind (stack (state_s s ! l)) (\<lambda>st.
                   ebind (permute102 st) (\<lambda>pt.
                   ebind (case output_tensor s of None \<Rightarrow> Inl (AttributeError ''output'')
                                                | Some out \<Rightarrow> py_nth (shape out) 0) (\<lambda>b0.
                   if num_models s = 0 then Inl ZeroDivisionError
                   else
                     ebind (case term_length s of None \<Rightarrow> Inl (AttributeError ''term_length'')
                                                | Some n \<Rightarrow> Inr n) (\<lambda>tlen.
                     ebind (block_sums (num_models s) (b0 div num_models s) tlen pt) (\<lambda>xs.
                     Inr (map trunc xs))))))))) (\<lambda>rows.
          ebind (lift s (stack_t rows)) (\<lambda>tot.
          Inr (s\<lparr>num_spike_total := Multi tot\<rparr>)))
        else
          ebind (lift s (counted_layers s (\<lambda>l.
                   ebind (stack (state_s s ! l)) (\<lambda>st.
                   Inr (trunc (sum_list (vals st))))))) (\<lambda>tot.
          Inr (s\<lparr>num_spike_total := Single tot\<rparr>)))
       (\<lambda>s1.
     ebind (calc_first_stime s1) (\<lambda>(first_stime, s2).
     ebind (lift s2 (counted_layers s2 (\<lambda>l.
              ebind (ebind (case output_tensor s2 of None \<Rightarrow> Inl (AttributeError ''output'')
                                                   | Some out \<Rightarrow> py_nth (shape out) 0) (\<lambda>b0.
                     emap (\<lambda>b. ebind (py_nth first_stime b) (\<lambda>fs.
                                spikes_upto (state_s s2 ! l) (fs + 1) b)) [0..<b0])) (\<lambda>each.
              if multi_model s2 then
                ebind (reshape_rows (num_models s2)
                         \<lparr>shape = [length each], vals = map real_of_int each\<rparr>) (\<lambda>r.
                Inr (map (\<lambda>c. trunc (sum_list c))
                       (chunks (shape r ! 1) (num_models s2) (vals r))))
              else Inr [sum_list each])))) (\<lambda>nec.
       if multi_model s2 then
         ebind (lift s2 (stack_t nec)) (\<lambda>tot. Inr (s2\<lparr>num_spike_nec := Multi tot\<rparr>))
       else Inr (s2\<lparr>num_spike_nec := Single (map hd nec)\<rparr>))))"

section \<open>The forward pass\<close>

text \<open>
  \<open>forward(input)\<close>.  \<open>self.input\<close>, the cumulative output spikes of latency mode, the
  empty per-layer traces and the merged parameters are set up; the time loop runs;
  \<open>term_length\<close> is the last loop index plus one (the loop variable is unbound when the
  loop never ran); the output is the stacked spikes of the last layer with time and batch
  exchanged; the statistics are computed.
\<close>

definition forward_setup :: "snn \<Rightarrow> tensor \<Rightarrow> (error \<times> snn) + snn" where
  "forward_setup s inp =
     ebind
       (if multi_model s then
          ebind (lift s (py_nth (shape inp) 0)) (\<lambda>s0.
          if num_models s \<noteq> s0 then Inl (AssertionError, s)
          else ebind (lift s (merge_first_two inp)) (\<lambda>x. Inr (s\<lparr>input := Some x\<rparr>)))
        else Inr (s\<lparr>input := Some inp\<rparr>))
       (\<lambda>s1.
     ebind
       (if target_type s1 = ''latency'' then
          ebind (if multi_model s1
                 then ebind (lift s1 (py_nth (shape inp) 1)) (\<lambda>b. Inr (num_models s1 * b))
                 else lift s1 (py_nth (shape inp) 0)) (\<lambda>dim1.
          ebind (lift s1 (ebind (py_back (fmap_shape_list s1) 1) (\<lambda>sh. py_nth sh 0))) (\<lambda>dim2.
          if dim2 < 0 then Inl (RuntimeError ''negative dimension'', s1)
          else Inr (s1\<lparr>output_s_cum := Some (zeros [dim1, nat dim2])\<rparr>)))
        else Inr s1)
       (\<lambda>s2.
     let n = length (layers s2);
         s3 = s2\<lparr>state_i := replicate n [], state_v := replicate n [],
                 state_v_prime := replicate n [], state_s := replicate n [],
                 layers := map flush_max_index (layers s2)\<rparr>
     in
     if multi_model s3 then
       ebind (merge_weight_loop (layers s3) (s3\<lparr>weight_list := []\<rparr>)) (\<lambda>s4.
       merge_bias_loop (state_v_bs s4) (s4\<lparr>bias_list := []\<rparr>))
     else Inr s3))"

definition forward :: "torch_env \<Rightarrow> snn \<Rightarrow> tensor \<Rightarrow> (error \<times> snn) + snn" where
  "forward env s inp =
     ebind (forward_setup s inp) (\<lambda>s1.
     ebind (time_loop env inp [0..<time_length s1] None s1) (\<lambda>(last_t, s2).
     ebind (lift s2 (load_local ''t'' last_t)) (\<lambda>t.
     let s3 = s2\<lparr>term_length := Some (t + 1)\<rparr> in
     ebind (lift s3 (ebind (py_back (state_s s3) 1) stack)) (\<lambda>st.
     ebind (lift s3 (permute102 st)) (\<lambda>out.
     let s4 = s3\<lparr>output_tensor := Some out\<rparr> in
     ebind
       (if multi_model s4 then
          ebind (lift s4 (split_models (num_models s4) out)) (\<lambda>each.
          Inr (s4\<lparr>output_each_model := Some each\<rparr>))
        else Inr s4)
       calc_num_spike)))))"

section \<open>Loss engine (\<open>calc_loss\<close>, \<open>apply_alpha_kernel\<close>)\<close>

text \<open>
  The Python values that occur in the guard of \<open>apply_alpha_kernel\<close>: a \<open>torch.Size\<close>,
  an \<open>int\<close> and a \<open>bool\<close>.  A size and an integer are never equal, so \<open>!=\<close> on them is
  \<open>True\<close>; \<open>len\<close> is defined on a size and raises \<open>TypeError\<close> on a \<open>bool\<close> or an
  \<open>int\<close>.
\<close>

datatype pyval = PySize "nat list" | PyInt int | PyBool bool

definition py_ne :: "pyval \<Rightarrow> pyval \<Rightarrow> pyval" where
  "py_ne a b = PyBool (a \<noteq> b)"

definition py_len :: "pyval \<Rightarrow> error + nat" where
  "py_len v =
     (case v of
        PySize sh \<Rightarrow> Inr (length sh)
      | PyInt _ \<Rightarrow> Inl (TypeError ''object of type int has no len()'')
      | PyBool _ \<Rightarrow> Inl (TypeError ''object of type bool has no len()''))"

text \<open>
  \<open>F.conv1d\<close> of one series with one kernel and zero padding on both sides: the
  cross-correlation of the padded series with the kernel.
\<close>

definition conv1d_row :: "real list \<Rightarrow> int \<Rightarrow> real list \<Rightarrow> error + real list" where
  "conv1d_row kern pad xs =
     (if pad < 0 then Inl (RuntimeError ''negative padding is not supported'')
      else
        (let xp = replicate (nat pad) 0 @ xs @ replicate (nat pad) 0 in
         if kern = [] \<or> length xp < length kern
         then Inl (RuntimeError ''kernel size cannot be greater than actual input size'')
         else Inr (map (\<lambda>j. dot kern (take (length kern) (drop j xp)))
                     [0..<length xp - length kern + 1])))"

text \<open>
  \<open>apply_alpha_kernel(input, padding, flip, prime)\<close>.  Its first statement is
  \<open>if len(input.shape != 3): raise ValueError\<close>: the comparison is evaluated first and
  \<open>len\<close> is applied to its result.  After the guard the input of shape \<open>[B, T, F]\<close> is
  convolved along the time axis, one series per example and feature, with the (flipped)
  kernel, which gives shape \<open>[B, T', F]\<close>.
\<close>

definition apply_alpha_kernel ::
  "snn \<Rightarrow> tensor \<Rightarrow> bool \<Rightarrow> bool \<Rightarrow> bool \<Rightarrow> error + tensor"
where
  "apply_alpha_kernel s inp padding flip prime =
     ebind (py_len (py_ne (PySize (shape inp)) (PyInt 3))) (\<lambda>n.
     if n \<noteq> 0 then Inl (ValueError ''input shape must be rank 3'')
     else
       ebind (unpack3 (shape inp)) (\<lambda>(batch_size, num_time_step, num_features).
       ebind (case (if prime then alpha_kernel_prime s else alpha_kernel s) of
                None \<Rightarrow> Inl (AttributeError ''alpha_kernel'')
              | Some k \<Rightarrow> Inr k) (\<lambda>k0.
       let kern = (if flip then rev k0 else k0);
           padding_length = (if padding then int (length kern) - 1 else 0);
           series = concat (map (\<lambda>blk. transpose (chunks num_features num_time_step blk))
                      (chunks (num_time_step * num_features) batch_size (vals inp)))
       in
       ebind (emap (conv1d_row kern padding_length) series) (\<lambda>outs.
       let t' = (case outs of [] \<Rightarrow> 0 | r # _ \<Rightarrow> length r) in
       if batch_size * num_features = 0
       then Inl (RuntimeError ''cannot reshape tensor of 0 elements'')
       else
         Inr \<lparr>shape = [batch_size, t', num_features],
              vals = concat (map (\<lambda>blk. concat (transpose blk))
                               (chunks num_features batch_size outs))\<rparr>))))"

text \<open>\<open>x[:, :k, :]\<close> and \<open>x[:, -1, :]\<close> on a rank-3 tensor.\<close>

definition slice_time :: "nat \<Rightarrow> tensor \<Rightarrow> error + tensor" where
  "slice_time k x =
     (case shape x of
        [b, t, f] \<Rightarrow>
          Inr \<lparr>shape = [b, min k t, f],
               vals = concat (map (take (min k t * f)) (chunks (t * f) b (vals x)))\<rparr>
      | _ \<Rightarrow> Inl IndexError)"

definition last_time :: "tensor \<Rightarrow> error + tensor" where
  "last_time x =
     (case shape x of
        [b, t, f] \<Rightarrow> if t = 0 then Inl IndexError else select_axis 1 (t - 1) x
      | _ \<Rightarrow> Inl IndexError)"

text \<open>
  The nested function \<open>_mse(target_type)\<close> of \<open>calc_loss\<close>.  For the count rule the source
  calls \<open>torch.pow\<close> with the single argument \<open>self.diff[:, -1, :]\<close>; \<open>pow\<close> needs an
  exponent, so that call raises \<open>TypeError\<close>.
\<close>

definition mse :: "string \<Rightarrow> tensor \<Rightarrow> snn \<Rightarrow> (error \<times> snn) + snn" where
  "mse tt target s =
     ebind (lift s (case output_tensor s of
                      None \<Rightarrow> Inl (AttributeError ''float'')
                    | Some out \<Rightarrow> tbin (-) out target)) (\<lambda>tmp1.
     ebind (lift s (case alpha_extend s of
                      None \<Rightarrow> Inl (AttributeError ''alpha_extend'')
                    | Some a \<Rightarrow> Inr (time_length s + a))) (\<lambda>tmp2.
     ebind (lift s (ebind (apply_alpha_kernel s tmp1 True True False) (slice_time tmp2))) (\<lambda>d.
     let s1 = s\<lparr>diff := Some d\<rparr> in
     ebind (if tt = ''train'' then Inr (s1\<lparr>loss_L := Some (tmap (\<lambda>v. v ^ 2) d)\<rparr>)
            else if tt = ''count'' then
              ebind (lift s1 (last_time d)) (\<lambda>_.
              Inl (TypeError ''pow() missing required argument: exponent'', s1))
            else Inl (ValueError ''expected train or count for MSE calculation'', s1)) (\<lambda>s2.
     ebind (lift s2 (case (loss_L s2, batch_size s2) of
                       (Some l, Some b) \<Rightarrow>
                         Inr (tmap (\<lambda>v. v / (real (time_length s2) * real b)) l)
                     | _ \<Rightarrow> Inl (AttributeError ''L''))) (\<lambda>l.
     let s3 = s2\<lparr>loss_L := Some l\<rparr> in
     if multi_model s3 then
       ebind (lift s3 (reshape_rows (num_models s3) l)) (\<lambda>r.
       Inr (s3\<lparr>loss := Some \<lparr>shape = [num_models s3],
                               vals = map (\<lambda>c. sum_list c * real (num_models s3))
                                        (chunks (shape r ! 1) (num_models s3) (vals r))\<rparr>\<rparr>))
     else Inr (s3\<lparr>loss := Some \<lparr>shape = [], vals = [sum_list (vals l)]\<rparr>\<rparr>))))))"

text \<open>
  \<open>calc_loss(target)\<close>.  The latency branch (cross-entropy through the library's automatic
  differentiation) is not the subject of any property below and enters as the parameter
  \<open>latency_loss\<close>.
\<close>

definition calc_loss ::
  "(tensor \<Rightarrow> snn \<Rightarrow> (error \<times> snn) + snn) \<Rightarrow> snn \<Rightarrow> tensor \<Rightarrow> (error \<times> snn) + snn"
where
  "calc_loss latency_loss s target =
     ebind (lift s (py_nth (shape target) 0)) (\<lambda>b.
     let s1 = s\<lparr>batch_size := Some b\<rparr> in
     if target_type s1 = ''train'' then mse ''train'' target s1
     else if target_type s1 = ''count'' then mse ''count'' target s1
     else if target_type s1 = ''latency'' then latency_loss target s1
     else Inr s1)"

section \<open>Gradient clipping (the last block of \<open>backward_custom\<close>)\<close>

text \<open>\<open>clamp_grad(obj, grad_clip)\<close>: the gradient clamped to \<open>[-|grad_clip|, |grad_clip|]\<close>.\<close>

definition clamp_grad :: "parameter \<Rightarrow> real \<Rightarrow> error + parameter" where
  "clamp_grad obj gc =
     (let abs_gc = \<bar>gc\<bar> in
      case grad obj of
        None \<Rightarrow> Inl (TypeError ''clamp(): argument input must be Tensor, not NoneType'')
      | Some g \<Rightarrow> Inr (obj\<lparr>grad := Some (tmap (\<lambda>x. min (max x (- abs_gc)) abs_gc) g)\<rparr>))"

text \<open>\<open>abs(grad_clip)\<close> needs a number: a list has no absolute value.\<close>

definition clip_number :: "clipval \<Rightarrow> error + real" where
  "clip_number gc =
     (case gc of ClipNum x \<Rightarrow> Inr x
      | ClipList _ \<Rightarrow> Inl (TypeError ''bad operand type for abs(): list''))"

definition clamp_module :: "nn_module \<Rightarrow> real \<Rightarrow> error + nn_module" where
  "clamp_module m gc =
     (case m of
        Conv2d w p \<Rightarrow> ebind (clamp_grad w gc) (\<lambda>w'. Inr (Conv2d w' p))
      | Linear w \<Rightarrow> ebind (clamp_grad w gc) (\<lambda>w'. Inr (Linear w'))
      | _ \<Rightarrow> Inl (AttributeError ''weight''))"

definition clamp_bias :: "parameter option \<Rightarrow> real \<Rightarrow> error + parameter option" where
  "clamp_bias b gc =
     (case b of
        None \<Rightarrow> Inl (AttributeError ''grad'')
      | Some p \<Rightarrow> ebind (clamp_grad p gc) (\<lambda>p'. Inr (Some p')))"

definition obj_of_slot :: "nn_module slot \<Rightarrow> pyobj" where
  "obj_of_slot sl = (case sl of Single m \<Rightarrow> ObjModule m | Multi ms \<Rightarrow> ObjList ms)"

text \<open>
  The body of \<open>for m in range(self.num_models)\<close> for layer \<open>l\<close>.  The local variable
  \<open>grad_clip\<close> is carried from one iteration to the next: once the source has selected a
  number from the list, it has replaced the list by that number.  The clamps are guarded
  by \<open>is_conv2d_or_linear(layer)\<close>, where \<open>layer\<close> is the entry of \<open>self.layers\<close> (the
  list of replicas), not a replica.
\<close>

definition clip_model_step ::
  "nat \<Rightarrow> nat \<Rightarrow> clipval \<times> snn \<Rightarrow> error + clipval \<times> snn"
where
  "clip_model_step l m st =
     (case st of (gc, s) \<Rightarrow>
        ebind (case gc of
                 ClipList xs \<Rightarrow>
                   if xs = [] then Inl ZeroDivisionError
                   else if num_models s div length xs = 0 then Inl ZeroDivisionError
                   else ebind (py_nth xs (m div (num_models s div length xs)))
                          (\<lambda>x. Inr (ClipNum x))
               | ClipNum x \<Rightarrow> Inr (ClipNum x)) (\<lambda>gc1.
        if is_conv2d_or_linear (obj_of_slot (layers s ! l)) then
          ebind (case layers s ! l of
                   Single _ \<Rightarrow> Inl (TypeError ''module object is not subscriptable'')
                 | Multi ms \<Rightarrow> py_nth ms m) (\<lambda>layer_m.
          ebind (clip_number gc1) (\<lambda>c.
          ebind (clamp_module layer_m c) (\<lambda>layer_m'.
          ebind (case state_v_bs s ! l of
                   Single _ \<Rightarrow> Inl (TypeError ''object is not subscriptable'')
                 | Multi bs \<Rightarrow> py_nth bs m) (\<lambda>b.
          ebind (clamp_bias b c) (\<lambda>b'.
          Inr (gc1,
               s\<lparr>layers := (layers s)[l := (case layers s ! l of
                                               Multi ms \<Rightarrow> Multi (ms[m := layer_m'])
                                             | sl \<Rightarrow> sl)],
                 state_v_bs := (state_v_bs s)[l := (case state_v_bs s ! l of
                                                     Multi bs \<Rightarrow> Multi (bs[m := b'])
                                                   | sl \<Rightarrow> sl)]\<rparr>))))))
        else Inr (gc1, s)))"

fun clip_model_loop ::
  "nat \<Rightarrow> nat list \<Rightarrow> clipval \<times> snn \<Rightarrow> error + clipval \<times> snn"
where
  "clip_model_loop l [] st = Inr st"
| "clip_model_loop l (m # ms) st =
     ebind (clip_model_step l m st) (\<lambda>st1. clip_model_loop l ms st1)"

text \<open>The body of \<open>for l, layer in enumerate(self.layers)\<close>.\<close>

definition clip_layer_step :: "nat \<Rightarrow> clipval \<times> snn \<Rightarrow> error + clipval \<times> snn" where
  "clip_layer_step l st =
     (case st of (gc, s) \<Rightarrow>
        if multi_model s then
          ebind (case gc of
                   ClipList xs \<Rightarrow>
                     if xs = [] then Inl ZeroDivisionError
                     else if num_models s mod length xs \<noteq> 0
                     then Inl (ValueError ''len(grad_clip) must be a factor of self.num_models'')
                     else Inr ()
                 | ClipNum _ \<Rightarrow> Inr ()) (\<lambda>_.
          clip_model_loop l [0..<num_models s] (gc, s))
        else
          ebind (case gc of
                   ClipList xs \<Rightarrow> ebind (py_nth xs 0) (\<lambda>x. Inr (ClipNum x))
                 | ClipNum x \<Rightarrow> Inr (ClipNum x)) (\<lambda>gc1.
          if is_conv2d_or_linear (obj_of_slot (layers s ! l)) then
            ebind (case layers s ! l of
                     Single m \<Rightarrow> Inr m
                   | Multi _ \<Rightarrow> Inl (AttributeError ''weight'')) (\<lambda>layer.
            ebind (clip_number gc1) (\<lambda>c.
            ebind (clamp_module layer c) (\<lambda>layer'.
            ebind (case state_v_bs s ! l of
                     Single b \<Rightarrow> clamp_bias b c
                   | Multi _ \<Rightarrow> Inl (AttributeError ''grad'')) (\<lambda>b'.
            Inr (gc1, s\<lparr>layers := (layers s)[l := Single layer'],
                        state_v_bs := (state_v_bs s)[l := Single b']\<rparr>)))))
          else Inr (gc1, s)))"

fun clip_layer_loop :: "nat list \<Rightarrow> clipval \<times> snn \<Rightarrow> error + clipval \<times> snn" where
  "clip_layer_loop [] st = Inr st"
| "clip_layer_loop (l # ls) st = ebind (clip_layer_step l st) (\<lambda>st1. clip_layer_loop ls st1)"

text \<open>
  The clipping block: \<open>grad_clip = self.grad_clip\<close>, then the loop over the layers.
\<close>

definition clip_gradients :: "snn \<Rightarrow> error + snn" where
  "clip_gradients s =
     ebind (clip_layer_loop [0..<length (layers s)] (grad_clip s, s)) (\<lambda>st. Inr (snd st))"

section \<open>The NaN guard of \<open>prop_dLdI_to_dLdW\<close>\<close>

text \<open>
  Over the reals no entry is NaN, so the guard is modelled on entries that are either NaN or
  a number.  The guard of the fully connected branch replaces the NaN entries by 0 and logs
  a warning.  The guard of the convolution branch first calls \<open>pdb.set_trace()\<close>, which
  hands control to the interactive debugger: when the debugger is left with \<open>continue\<close>
  the replacement and the warning follow; when it is quit, or its input is at end of file,
  \<open>BdbQuit\<close> is raised.  What the debugger is told is an input of the model.
\<close>

datatype fl = NaN | Fin real

datatype dbg_cmd = DbgContinue | DbgQuit

definition is_nan :: "fl \<Rightarrow> bool" where
  "is_nan x = (x = NaN)"

definition nan_to_zero :: "fl list \<Rightarrow> fl list" where
  "nan_to_zero wg = map (\<lambda>x. if is_nan x then Fin 0 else x) wg"

definition nan_guard_fc :: "fl list \<times> string list \<Rightarrow> error + fl list \<times> string list" where
  "nan_guard_fc st =
     (case st of (wg, msgs) \<Rightarrow>
        if list_ex is_nan wg
        then Inr (nan_to_zero wg, msgs @ [''nan found and replaced with 0''])
        else Inr (wg, msgs))"

definition nan_guard_conv ::
  "dbg_cmd \<Rightarrow> fl list \<times> string list \<Rightarrow> error + fl list \<times> string list"
where
  "nan_guard_conv dbg st =
     (case st of (wg, msgs) \<Rightarrow>
        if list_ex is_nan wg
        then (case dbg of
                DbgQuit \<Rightarrow> Inl BdbQuit
              | DbgContinue \<Rightarrow> Inr (nan_to_zero wg, msgs @ [''nan found and replaced with 0'']))
        else Inr (wg, msgs))"

section \<open>Concrete networks\<close>

text \<open>
  Networks and inputs used to run the definitions: \<open>net_single\<close> is a single model with
  one fully connected layer (2 inputs, 1 output, bias 1/2, \<open>beta_bias = 2\<close>);
  \<open>net_multi\<close> is a multi-model of two replicas of one fully connected layer (1 input,
  1 output, weights 1 and 2, bias 0) in latency mode with three timesteps, no current decay
  and full voltage decay, whose input is 0.6 at every step.
\<close>

definition snn_of :: "snn_config \<Rightarrow> snn" where
  "snn_of cfg = snn_config.extend cfg
     \<lparr>num_layer = 0, layers = [], state_v_bs = [], fmap_shape_list = [], fmap_type_list = [],
      input = None, output_s_cum = None, state_i = [], state_v = [],
      state_v_prime = [], state_s = [], weight_list = [], bias_list = [],
      term_length = None, output_tensor = None, output_each_model = None,
      num_spike_total = Single [], num_spike_nec = Single [],
      first_stime_min = None, first_stime_mean = None, batch_size = None,
      diff = None, loss_L = None, loss = None, warnings = []\<rparr>"

definition lin :: "real list \<Rightarrow> nat list \<Rightarrow> nn_module" where
  "lin ws sh = Linear \<lparr>data = \<lparr>shape = sh, vals = ws\<rparr>, grad = None\<rparr>"

definition bias_of :: "real list \<Rightarrow> parameter option" where
  "bias_of bs = Some \<lparr>data = \<lparr>shape = [length bs], vals = bs\<rparr>, grad = None\<rparr>"

definition net_single :: snn where
  "net_single = (snn_of (cfg_demo\<lparr>target_type := ''train'', time_length := 2, alpha_i := 0, alpha_v := 1,
       beta_auto := False, beta_bias := 2\<rparr>))
     \<lparr>num_layer := 1, layers := [Single (lin [1, 1] [1, 2])], state_v_bs := [Single (bias_of [1 / 2])],
      fmap_shape_list := [[1]], fmap_type_list := [''fc'']\<rparr>"

definition inp_single :: tensor where
  "inp_single = \<lparr>shape = [1, 2, 2], vals = [3 / 10, 3 / 10, 3 / 10, 3 / 10]\<rparr>"

definition net_multi :: snn where
  "net_multi = (snn_of (cfg_demo\<lparr>multi_model := True, num_models := 2, target_type := ''latency'', time_length := 3,
       alpha_i := 0, alpha_v := 1, beta_auto := False\<rparr>))
     \<lparr>num_layer := 1, layers := [Multi [lin [1] [1, 1], lin [2] [1, 1]]],
      state_v_bs := [Multi [bias_of [0], bias_of [0]]],
      fmap_shape_list := [[1]], fmap_type_list := [''fc'']\<rparr>"

definition inp_multi :: tensor where
  "inp_multi = \<lparr>shape = [2, 1, 3, 1], vals = [6 / 10, 6 / 10, 6 / 10, 6 / 10, 6 / 10, 6 / 10]\<rparr>"

text \<open>
  \<open>net_clip\<close> is a multi-model of two replicas whose weight gradients are 5 and whose
  bias gradients are -7, with the clip list \<open>[1, 2]\<close>; \<open>net_loss\<close> is a count-rule network
  holding an output of shape \<open>[1, 2, 1]\<close>, and \<open>target_demo\<close> a target of that shape.
\<close>

definition grad_param :: "real list \<Rightarrow> nat list \<Rightarrow> real list \<Rightarrow> parameter" where
  "grad_param ws sh gs = \<lparr>data = \<lparr>shape = sh, vals = ws\<rparr>, grad = Some \<lparr>shape = sh, vals = gs\<rparr>\<rparr>"

definition net_clip :: snn where
  "net_clip = (snn_of (cfg_demo\<lparr>multi_model := True, num_models := 2, grad_clip := ClipList [1, 2]\<rparr>))
     \<lparr>num_layer := 1,
      layers := [Multi [Linear (grad_param [1] [1, 1] [5]), Linear (grad_param [2] [1, 1] [5])]],
      state_v_bs := [Multi [Some (grad_param [0] [1] [- 7]), Some (grad_param [0] [1] [- 7])]],
      fmap_shape_list := [[1]], fmap_type_list := [''fc'']\<rparr>"

definition out_demo :: tensor where
  "out_demo = \<lparr>shape = [1, 2, 1], vals = [0, 1]\<rparr>"

definition target_demo :: tensor where
  "target_demo = \<lparr>shape = [1, 2, 1], vals = [1, 1]\<rparr>"

definition net_loss :: snn where
  "net_loss = (snn_of (cfg_demo\<lparr>target_type := ''count'', time_length := 2, alpha_exp := 1,
                 alpha_extend := Some 0, alpha_kernel := Some [1, 1],
                 alpha_kernel_prime := Some [1 / 2, 1 / 2, - 1 / 2, - 1 / 2]\<rparr>))
     \<lparr>output_tensor := Some out_demo\<rparr>"

section \<open>Properties of the kernel initializer\<close>

lemma rev_upt_map: "rev [0..<n] = map (\<lambda>k. n - 1 - k) [0..<n]"
proof (rule nth_equalityI)
  show "length (rev [0..<n]) = length (map (\<lambda>k. n - 1 - k) [0..<n])" by simp
next
  fix i assume "i < length (rev [0..<n])"
  then have i: "i < n" by simp
  then show "rev [0..<n] ! i = map (\<lambda>k. n - 1 - k) [0..<n] ! i"
    by (simp add: rev_nth)
qed

lemma map2_same_map: "map2 f (map g xs) (map h xs) = map (\<lambda>x. f (g x) (h x)) xs"
  by (induction xs) simp_all

lemma epsilon_entry_sum:
  "epsilon_entry ai av t = (\<Sum>k\<le>t. ai ^ k * av ^ (t - k))"
proof -
  have "epsilon_entry ai av t =
        sum_list (map (\<lambda>k. ai ^ k * av ^ (t - k)) [0..<t + 1])"
    unfolding epsilon_entry_def pow_arange_def pow_arange_down_def
    by (simp only: rev_upt_map [of "t + 1"] map_map map2_same_map o_def)
       simp
  also have "\<dots> = (\<Sum>k\<in>{0..<t + 1}. ai ^ k * av ^ (t - k))"
    by (simp only: interv_sum_list_conv_sum_set_nat set_upt)
  also have "{0..<t + 1} = {..t}" by auto
  finally show ?thesis .
qed


lemma tensor_max_Max:
  assumes "xs \<noteq> []"
  shows "tensor_max xs = Inr (Max (set xs))"
proof (cases xs)
  case Nil
  with assms show ?thesis by simp
next
  case (Cons y ys)
  then show ?thesis
    using Max.set_eq_fold [of y ys] by (simp add: tensor_max_def)
qed

lemma tensor_max_Nil: "tensor_max [] = Inl (RuntimeError ''max(): empty tensor'')"
  by (simp add: tensor_max_def)

lemma epsilon_loop_length: "length (epsilon_loop ai av T) = T"
  by (simp add: epsilon_loop_def)

lemma epsilon_loop_nth:
  "t < T \<Longrightarrow> epsilon_loop ai av T ! t = (\<Sum>k\<le>t. ai ^ k * av ^ (t - k))"
  by (simp add: epsilon_loop_def epsilon_entry_sum)

lemma epsilon_sum_nonneg:
  fixes ai av :: real
  shows "0 < ai \<Longrightarrow> 0 < av \<Longrightarrow> 0 \<le> (\<Sum>k\<le>t. ai ^ k * av ^ (t - k))"
  by (rule sum_nonneg) simp

lemma epsilon_loop_nonneg:
  "0 < ai \<Longrightarrow> 0 < av \<Longrightarrow> t < T \<Longrightarrow> 0 \<le> epsilon_loop ai av T ! t"
  by (simp add: epsilon_loop_nth sum_nonneg)

lemma init_alpha_kernel_keeps:
  "alpha_i (init_alpha_kernel s) = alpha_i s"
  "alpha_v (init_alpha_kernel s) = alpha_v s"
  "time_length (init_alpha_kernel s) = time_length s"
  "beta_auto (init_alpha_kernel s) = beta_auto s"
  "beta_i (init_alpha_kernel s) = beta_i s"
  "beta_v (init_alpha_kernel s) = beta_v s"
  "beta_bias (init_alpha_kernel s) = beta_bias s"
  by (simp_all add: init_alpha_kernel_def Let_def)

lemma init_kernels_auto:
  assumes "target_type s \<in> set VALID_TARGETS" "beta_auto s" "0 < time_length s"
  shows "init_kernels s =
    Inr ((init_alpha_kernel s)\<lparr>beta_i := 1,
           beta_v := 1 / Max (set (epsilon_loop (alpha_i s) (alpha_v s) (time_length s))),
           beta_bias := 1 / Max (set (epsilon_loop (alpha_i s) (alpha_v s) (time_length s))),
           epsilon := Some (map (\<lambda>x. x * (1 * (1 / Max (set (epsilon_loop (alpha_i s) (alpha_v s) (time_length s))))))
                        (epsilon_loop (alpha_i s) (alpha_v s) (time_length s))),
           epsilon_prime := Some (kernel_prime_of (map (\<lambda>x. x * (1 * (1 / Max (set (epsilon_loop (alpha_i s) (alpha_v s) (time_length s))))))
                        (epsilon_loop (alpha_i s) (alpha_v s) (time_length s))))\<rparr>)"
proof -
  have ne: "epsilon_loop (alpha_i s) (alpha_v s) (time_length s) \<noteq> []"
    using assms(3) epsilon_loop_length [of "alpha_i s" "alpha_v s" "time_length s"] by auto
  show ?thesis
    using assms(1,2) by (simp add: init_kernels_def Let_def init_alpha_kernel_keeps tensor_max_Max [OF ne])
qed

lemma init_kernels_manual:
  assumes "target_type s \<in> set VALID_TARGETS" "\<not> beta_auto s"
  shows "init_kernels s =
    Inr ((init_alpha_kernel s)\<lparr>
           epsilon := Some (map (\<lambda>x. x * (beta_i s * beta_v s))
                        (epsilon_loop (alpha_i s) (alpha_v s) (time_length s))),
           epsilon_prime := Some (kernel_prime_of (map (\<lambda>x. x * (beta_i s * beta_v s))
                        (epsilon_loop (alpha_i s) (alpha_v s) (time_length s))))\<rparr>)"
  using assms by (simp add: init_kernels_def Let_def init_alpha_kernel_keeps)

text \<open>
  Claim C6.  For every valid target type (and a positive time horizon when auto-scaling is on,
  since the maximum of an empty kernel does not exist) the kernel initializer returns, and the
  kernel it computes before scaling has, at every timestep \<open>t < T\<close>, the entry
  \<open>\<Sum>k\<le>t. alpha_i^k * alpha_v^(t-k)\<close>; its entry 0 is 1; its entries are non-negative for
  decay constants in (0,1); the stored \<open>epsilon\<close> is that kernel times \<open>beta_i * beta_v\<close>;
  and with auto-scaling \<open>beta_i = 1\<close>, \<open>beta_v = beta_bias = 1 / max(epsilon)\<close>, while
  without it the configured constants are kept.
\<close>

theorem init_kernels_epsilon:
  assumes "target_type s \<in> set VALID_TARGETS"
    and "beta_auto s \<longrightarrow> 0 < time_length s"
  shows "\<exists>s'. init_kernels s = Inr s' \<and>
      (let eps = epsilon_loop (alpha_i s) (alpha_v s) (time_length s) in
         length eps = time_length s \<and>
         (\<forall>t<time_length s. eps ! t = (\<Sum>k\<le>t. alpha_i s ^ k * alpha_v s ^ (t - k))) \<and>
         (0 < time_length s \<longrightarrow> eps ! 0 = 1) \<and>
         (0 < alpha_i s \<and> alpha_i s < 1 \<and> 0 < alpha_v s \<and> alpha_v s < 1 \<longrightarrow>
            (\<forall>t<time_length s. 0 \<le> eps ! t)) \<and>
         epsilon s' = Some (map (\<lambda>x. x * (beta_i s' * beta_v s')) eps) \<and>
         (beta_auto s \<longrightarrow>
            beta_i s' = 1 \<and> beta_v s' = 1 / Max (set eps) \<and> beta_bias s' = 1 / Max (set eps)) \<and>
         (\<not> beta_auto s \<longrightarrow>
            beta_i s' = beta_i s \<and> beta_v s' = beta_v s \<and> beta_bias s' = beta_bias s))"
proof (cases "beta_auto s")
  case True
  with assms have T: "0 < time_length s" by simp
  show ?thesis
    unfolding init_kernels_auto [OF assms(1) True T] Let_def
    by (simp add: epsilon_loop_length epsilon_loop_nth epsilon_sum_nonneg True)
next
  case False
  show ?thesis
    unfolding init_kernels_manual [OF assms(1) False] Let_def
    by (simp add: epsilon_loop_length epsilon_loop_nth epsilon_sum_nonneg False
        init_alpha_kernel_keeps)
qed

lemma epsilon_loop_demo: "epsilon_loop (1 / 2) (1 / 4) 3 = [1, 3 / 4, 7 / 16]"
  by (simp add: epsilon_loop_def epsilon_entry_def pow_arange_def pow_arange_down_def
      upt_rec numeral_3_eq_3 power2_eq_square)

text \<open>The theorem at \<open>cfg_demo\<close>: alpha_i = 1/2, alpha_v = 1/4, three timesteps.\<close>

theorem init_kernels_epsilon_witness:
  "target_type cfg_demo \<in> set VALID_TARGETS \<and> 0 < time_length cfg_demo \<and>
   (\<exists>s'. init_kernels cfg_demo = Inr s' \<and> beta_i s' = 1 \<and> beta_v s' = 1 \<and> beta_bias s' = 1 \<and>
      epsilon s' = Some [1, 3 / 4, 7 / 16])"
proof -
  have h1: "target_type cfg_demo \<in> set VALID_TARGETS"
    by (simp add: cfg_demo_def VALID_TARGETS_def)
  have h2: "beta_auto cfg_demo \<longrightarrow> 0 < time_length cfg_demo"
    by (simp add: cfg_demo_def)
  have sel: "alpha_i cfg_demo = 1 / 2" "alpha_v cfg_demo = 1 / 4" "time_length cfg_demo = 3"
    "beta_auto cfg_demo"
    by (simp_all add: cfg_demo_def)
  from init_kernels_epsilon [OF h1 h2] show ?thesis
    unfolding sel(1-3) Let_def epsilon_loop_demo using h1 sel(4) by auto
qed

section \<open>Properties of the network builder and of construction\<close>

lemma ebind_simps [simp]:
  "ebind (Inl e) f = Inl e"
  "ebind (Inr x) f = f x"
  by (simp_all add: ebind_def)

lemma ebind_eq_Inr: "ebind m f = Inr y \<longleftrightarrow> (\<exists>x. m = Inr x \<and> f x = Inr y)"
  by (cases m) simp_all

lemma ebind_eq_Inl: "ebind m f = Inl e \<longleftrightarrow> m = Inl e \<or> (\<exists>x. m = Inr x \<and> f x = Inl e)"
  by (cases m) simp_all

lemma init_single_layer_raises: "init_single_layer env mm spec \<noteq> Inr r"
  unfolding init_single_layer_def Let_def load_local_def
  by (simp add: ebind_eq_Inr split: prod.splits)

lemma emap_Inr_all: "emap f xs = Inr ys \<Longrightarrow> x \<in> set xs \<Longrightarrow> \<exists>y. f x = Inr y"
  by (induction xs arbitrary: ys) (auto simp: ebind_eq_Inr)

lemma emap_Inl_some: "emap f xs = Inl e \<Longrightarrow> \<exists>x\<in>set xs. f x = Inl e"
  by (induction xs) (auto simp: ebind_eq_Inl)

lemma emap_Inr_length: "emap f xs = Inr ys \<Longrightarrow> length ys = length xs"
  by (induction xs arbitrary: ys) (auto simp: ebind_eq_Inr)

lemma init_layers_raises:
  assumes "tl (network_size cfg) \<noteq> []" and "multi_model cfg \<longrightarrow> 0 < num_models cfg"
  shows "init_layers env cfg \<noteq> Inr s"
proof
  assume ok: "init_layers env cfg = Inr s"
  obtain spec where spec: "spec \<in> set (tl (network_size cfg))"
    using assms(1) by (cases "tl (network_size cfg)") auto
  show False
  proof (cases "multi_model cfg")
    case True
    with assms(2) have "0 \<in> set [0..<num_models cfg]" by simp
    moreover from ok True obtain rs where
      "emap (\<lambda>m. emap (init_single_layer env True) (tl (network_size cfg))) [0..<num_models cfg] = Inr rs"
      by (auto simp: init_layers_def Let_def ebind_eq_Inr)
    ultimately obtain r where "emap (init_single_layer env True) (tl (network_size cfg)) = Inr r"
      using emap_Inr_all by fastforce
    with spec show False
      using emap_Inr_all init_single_layer_raises by fastforce
  next
    case False
    with ok obtain r where "emap (init_single_layer env False) (tl (network_size cfg)) = Inr r"
      by (auto simp: init_layers_def Let_def ebind_eq_Inr)
    with spec show False
      using emap_Inr_all init_single_layer_raises by fastforce
  qed
qed

lemma py_int_2: "py_int ''2'' = Inr 2" "py_int ''4'' = Inr 4"
  by (simp_all add: py_int_def valid_digits_def is_digit_def is_space_def digits_value_def)

text \<open>
  Claim C5.  The builder does not thread the running feature-map shape: every branch of
  \<open>_init_single_layer\<close> for a recognised tag reads a local variable that is still unbound
  (\<open>init_single_layer_raises\<close>), so construction raises for every non-empty layer sequence
  (\<open>init_layers_raises\<close>).  At the specification \<open>[4, fc2]\<close> of a single model the error
  is \<open>UnboundLocalError\<close> for \<open>in_channels\<close>, not a shape list ending in width 2.
\<close>

theorem init_layers_fc_unbound:
  "init_layers env_demo cfg_fc = Inl (UnboundLocalError ''in_channels'')"
  by (simp add: init_layers_def cfg_fc_def cfg_demo_def parse_input_shape_def py_int_2
      init_single_layer_def py_strip_def load_local_def Let_def)


lemma py_int_error: "py_int s = Inl e \<Longrightarrow> e = ValueError ''invalid literal for int() with base 10''"
  by (auto simp: py_int_def Let_def split: if_splits)

lemma emap_py_int_error:
  "emap py_int xs = Inl e \<Longrightarrow> e = ValueError ''invalid literal for int() with base 10''"
  using emap_Inl_some py_int_error by fastforce

lemma unpack2_error: "unpack2 xs = Inl e \<Longrightarrow> e = ValueError ''unpack''"
  by (auto simp: unpack2_def split: list.splits)

lemma unpack3_error: "unpack3 xs = Inl e \<Longrightarrow> e = ValueError ''unpack''"
  by (auto simp: unpack3_def split: list.splits)

lemma floor_div_error: "floor_div a b = Inl e \<Longrightarrow> e = ZeroDivisionError"
  by (auto simp: floor_div_def split: if_splits)

lemma init_single_layer_error:
  "init_single_layer env mm spec = Inl e \<Longrightarrow>
   e \<noteq> ValueError ''must set multi-model flag as True when num_models > 1''"
  unfolding init_single_layer_def Let_def load_local_def no_mm_support_def
  by (auto simp: ebind_eq_Inl dest!: py_int_error emap_py_int_error unpack2_error
      split: if_splits prod.splits)

lemma parse_input_shape_error:
  "parse_input_shape ns = Inl e \<Longrightarrow>
   e \<noteq> ValueError ''must set multi-model flag as True when num_models > 1''"
  unfolding parse_input_shape_def
  by (auto simp: ebind_eq_Inl dest!: py_int_error emap_py_int_error unpack3_error
      split: if_splits prod.splits list.splits)

lemma reset_parameters_single_layer_error:
  "reset_parameters_single_layer env c l b = Inl e \<Longrightarrow> \<exists>m. e = TypeError m"
  by (auto simp: reset_parameters_single_layer_def call_is_conv2d_or_linear_def Let_def
      ebind_eq_Inl split: if_splits)

lemma reset_slot_error:
  "reset_slot env c lb = Inl e \<Longrightarrow> (\<exists>m. e = TypeError m) \<or> e = IndexError"
  unfolding reset_slot_def
  by (auto simp: ebind_eq_Inl split: prod.splits slot.splits if_splits
      dest!: emap_Inl_some reset_parameters_single_layer_error)

lemma reset_parameters_error:
  "reset_parameters env s = Inl e \<Longrightarrow> (\<exists>m. e = TypeError m) \<or> e = IndexError"
  unfolding reset_parameters_def
  by (auto simp: ebind_eq_Inl dest!: emap_Inl_some reset_slot_error)

lemma reset_parameters_config:
  "reset_parameters env s = Inr s' \<Longrightarrow>
   multi_model s' = multi_model s \<and> num_models s' = num_models s"
  by (auto simp: reset_parameters_def ebind_eq_Inr)

lemma init_layers_error:
  assumes "init_layers env cfg = Inl e"
  shows "e \<noteq> ValueError ''must set multi-model flag as True when num_models > 1''"
proof
  assume e: "e = ValueError ''must set multi-model flag as True when num_models > 1''"
  have single: "\<And>mm. emap (init_single_layer env mm) (tl (network_size cfg)) \<noteq> Inl e"
    using emap_Inl_some init_single_layer_error e by fastforce
  have multi: "emap (\<lambda>m. emap (init_single_layer env True) (tl (network_size cfg)))
                 [0..<num_models cfg] \<noteq> Inl e"
    using emap_Inl_some [of "\<lambda>m. emap (init_single_layer env True) (tl (network_size cfg))"]
      single by fastforce
  from assms show False
    unfolding init_layers_def Let_def
    using single multi parse_input_shape_error [of "network_size cfg" e] e
    by (auto simp: ebind_eq_Inl dest!: reset_parameters_error split: if_splits)
qed

lemma init_layers_config:
  assumes "init_layers env cfg = Inr s"
  shows "multi_model s = multi_model cfg \<and> num_models s = num_models cfg"
  using assms unfolding init_layers_def Let_def
  by (auto simp: ebind_eq_Inr snn_config.defs split: if_splits dest!: reset_parameters_config)

lemma init_kernels_config:
  "init_kernels c = Inr c1 \<Longrightarrow> multi_model c1 = multi_model c \<and> num_models c1 = num_models c"
  by (auto simp: init_kernels_def init_alpha_kernel_def Let_def split: if_splits sum.splits)

lemma init_kernels_error:
  "init_kernels c = Inl e \<Longrightarrow>
   e \<noteq> ValueError ''must set multi-model flag as True when num_models > 1''"
  by (auto simp: init_kernels_def tensor_max_def Let_def split: if_splits sum.splits list.splits)

text \<open>
  Claim C9, as amended.  Construction raises the model-count error exactly when the model
  count differs from 1 while the multi-model flag is not set, and every network that
  construction returns has model count 1 or the multi-model flag set.  (Other configuration
  errors exist beside it; see \<open>snn_init_other_configuration_error\<close>.)
\<close>

theorem snn_init_model_count:
  "(snn_init env cfg = Inl (ValueError ''must set multi-model flag as True when num_models > 1''))
     = (\<not> multi_model cfg \<and> num_models cfg \<noteq> 1) \<and>
   (\<forall>s. snn_init env cfg = Inr s \<longrightarrow> num_models s = 1 \<or> multi_model s)"
proof (intro conjI allI impI)
  show "(snn_init env cfg = Inl (ValueError ''must set multi-model flag as True when num_models > 1''))
     = (\<not> multi_model cfg \<and> num_models cfg \<noteq> 1)"
    using init_kernels_error [of cfg] init_layers_error [of env]
    by (auto simp: snn_init_def ebind_eq_Inl)
next
  fix s assume "snn_init env cfg = Inr s"
  then show "num_models s = 1 \<or> multi_model s"
    by (auto simp: snn_init_def ebind_eq_Inr split: if_splits
        dest!: init_kernels_config init_layers_config)
qed

lemma snn_init_demo: "\<exists>s. snn_init env_demo cfg_demo = Inr s"
  by (simp add: snn_init_def cfg_demo_def init_kernels_def VALID_TARGETS_def
      init_alpha_kernel_def Let_def epsilon_loop_demo tensor_max_def
      init_layers_def parse_input_shape_def py_int_2 reset_parameters_def
      snn_config.defs snn.defs)

text \<open>The theorem at \<open>cfg_demo\<close>, whose construction returns.\<close>

theorem snn_init_model_count_witness:
  "\<exists>s. snn_init env_demo cfg_demo = Inr s \<and> num_models s = 1"
proof -
  obtain s where s: "snn_init env_demo cfg_demo = Inr s"
    using snn_init_demo by blast
  have "multi_model s = False"
    using s by (auto simp: snn_init_def ebind_eq_Inr cfg_demo_def split: if_splits
        dest!: init_kernels_config init_layers_config)
  with snn_init_model_count [of env_demo cfg_demo] s show ?thesis by auto
qed

text \<open>
  Claim C9 as stated fails: with model count 1 and no multi-model flag, an unknown loss-rule
  name still makes construction fail with a configuration error.
\<close>

theorem snn_init_other_configuration_error:
  "multi_model cfg_bogus = False \<and> num_models cfg_bogus = 1 \<and>
   snn_init env_demo cfg_bogus = Inl (ValueError ''invalid target type'')"
  by (simp add: cfg_bogus_def cfg_demo_def snn_init_def init_kernels_def VALID_TARGETS_def)

section \<open>Evaluations of the forward pass, the loss, the clipping block and the NaN guard\<close>

text \<open>
  Claim C1.  In a single model the forward pass does not compute the membrane potential the
  claim states.  At \<open>net_single\<close> (one fully connected layer, batch of one example) the
  current of step 0 is computed, \<open>I = beta_i * (W x) = 3/5\<close>; then the potential is formed
  in place in the bias parameter, and adding the rank-2 current to the rank-1 bias in place
  raises: no potential and no spike is ever stored.  (The multi-model path forms the
  potential in a tensor of its own.)
\<close>

theorem forward_single_model_raises:
  "(case forward env_demo net_single inp_single of
      Inl (e, s') \<Rightarrow>
        e = RuntimeError ''output shape does not match the broadcast shape'' \<and>
        state_i s' = [[\<lparr>shape = [1, 1], vals = [3 / 5]\<rparr>]] \<and>
        state_v s' = [[]] \<and> state_s s' = [[]]
    | Inr _ \<Rightarrow> False)"
  by code_simp

text \<open>
  Claim C10.  The same forward pass changes a bias tensor: before raising, the single-model
  path has multiplied the bias parameter in place by \<open>beta_bias\<close>, so the bias 1/2 of
  \<open>net_single\<close> is 1 afterwards.
\<close>

theorem forward_single_model_changes_bias:
  "(case forward env_demo net_single inp_single of
      Inl (e, s') \<Rightarrow>
        state_v_bs net_single = [Single (bias_of [1 / 2])] \<and>
        state_v_bs s' = [Single (bias_of [1])]
    | Inr _ \<Rightarrow> False)"
  by code_simp

text \<open>
  Claim C4.  In a multi-model the clipping block clamps nothing: the guard
  \<open>is_conv2d_or_linear(layer)\<close> is applied to the list of replicas, which is neither a
  convolution nor a linear module.  At \<open>net_clip\<close> the gradients 5 and -7 are still 5 and
  -7 after the block, outside \<open>[-1, 1]\<close> and \<open>[-2, 2]\<close>.
\<close>

theorem clip_gradients_multi_model_unclamped:
  "(case clip_gradients net_clip of
      Inl _ \<Rightarrow> False
    | Inr s' \<Rightarrow>
        layers s' = [Multi [Linear (grad_param [1] [1, 1] [5]), Linear (grad_param [2] [1, 1] [5])]] \<and>
        state_v_bs s' = [Multi [Some (grad_param [0] [1] [- 7]), Some (grad_param [0] [1] [- 7])]])"
  by code_simp

text \<open>
  Claim C8.  For a convolution layer whose weight gradient holds a NaN, the guard enters the
  debugger before it replaces anything; when the debugger is quit the backward pass ends
  with \<open>BdbQuit\<close>.  The guard of the fully connected branch does what the claim says
  (\<open>nan_guard_fc_replaces\<close>).
\<close>

theorem nan_guard_conv_quit:
  "nan_guard_conv DbgQuit ([Fin 1, NaN], []) = Inl BdbQuit"
  by code_simp

lemma nan_guard_fc_replaces:
  "nan_guard_fc (wg, msgs) = Inr (wg', msgs') \<Longrightarrow>
     \<not> list_ex is_nan wg' \<and> length wg' = length wg \<and>
     (\<forall>i<length wg. wg' ! i = (if is_nan (wg ! i) then Fin 0 else wg ! i)) \<and>
     (list_ex is_nan wg \<longrightarrow> msgs' = msgs @ [''nan found and replaced with 0''])"
  by (auto simp: nan_guard_fc_def nan_to_zero_def is_nan_def list_ex_iff split: if_splits)
     (metis nth_mem)

lemma apply_alpha_kernel_raises:
  "apply_alpha_kernel s x padding flip prime = Inl (TypeError ''object of type bool has no len()'')"
  by (simp add: apply_alpha_kernel_def py_len_def py_ne_def)

lemma broadcast_rev_same: "broadcast_rev xs xs = Some xs"
  by (induction xs) simp_all

lemma broadcast_shapes_same: "broadcast_shapes sh sh = Some sh"
  by (simp add: broadcast_shapes_def broadcast_rev_same)

text \<open>
  Claim C2.  Under the spike-train and the spike-count rule, for every output and target of
  the same shape (rank at least 1), \<open>calc_loss\<close> returns no loss: it raises the
  \<open>TypeError\<close> of \<open>len(input.shape != 3)\<close> in \<open>apply_alpha_kernel\<close>, having set only
  \<open>batch_size\<close>.
\<close>

theorem calc_loss_train_count_raises:
  assumes "target_type s = ''train'' \<or> target_type s = ''count''"
    and "output_tensor s = Some out" and "shape out = shape target" and "shape target \<noteq> []"
    and "alpha_extend s = Some a"
  shows "calc_loss latency_loss s target =
           Inl (TypeError ''object of type bool has no len()'',
                s\<lparr>batch_size := Some (hd (shape target))\<rparr>)"
proof -
  have b: "py_nth (shape target) 0 = Inr (hd (shape target))"
    using assms(4) by (cases "shape target") (simp_all add: py_nth_def)
  have m: "mse tt target (s\<lparr>batch_size := Some (hd (shape target))\<rparr>) =
           Inl (TypeError ''object of type bool has no len()'',
                s\<lparr>batch_size := Some (hd (shape target))\<rparr>)" for tt
    using assms(2,3,5)
    by (simp add: mse_def lift_def tbin_def broadcast_shapes_same apply_alpha_kernel_raises)
  show ?thesis
    using assms(1) by (auto simp: calc_loss_def b lift_def Let_def m)
qed

text \<open>
  The theorem at \<open>net_loss\<close> and \<open>target_demo\<close>.
\<close>

theorem calc_loss_train_count_raises_witness:
  "calc_loss (\<lambda>t s. Inr s) net_loss target_demo =
     Inl (TypeError ''object of type bool has no len()'', net_loss\<lparr>batch_size := Some 1\<rparr>)"
proof -
  have "target_type net_loss = ''train'' \<or> target_type net_loss = ''count''"
    by (simp add: net_loss_def snn_of_def cfg_demo_def snn_config.defs)
  moreover have "output_tensor net_loss = Some out_demo"
    by (simp add: net_loss_def)
  moreover have "shape out_demo = shape target_demo" "shape target_demo \<noteq> []"
    by (simp_all add: out_demo_def target_demo_def)
  moreover have "alpha_extend net_loss = Some 0"
    by (simp add: net_loss_def snn_of_def cfg_demo_def snn_config.defs)
  ultimately have "calc_loss (\<lambda>t s. Inr s) net_loss target_demo =
     Inl (TypeError ''object of type bool has no len()'',
          net_loss\<lparr>batch_size := Some (hd (shape target_demo))\<rparr>)"
    by (rule calc_loss_train_count_raises)
  then show ?thesis by (simp add: target_demo_def)
qed

end
